theory Spec2Isabelle
  imports Main
begin

section \<open>Strings\<close>

text \<open>
  A JavaScript string is modelled by the list of the bytes of its UTF-8 encoding. The
  string operations the commands use (\<open>endsWith\<close>, \<open>startsWith\<close>, \<open>replace\<close> with a
  string pattern, the regular expression \<open>/([A-Z])/g\<close>, \<open>join\<close>) search for ASCII
  patterns only, so they act on the bytes as they act on the code units.
\<close>

definition endsWith :: "string \<Rightarrow> string \<Rightarrow> bool" where
  "endsWith s suf = (length suf \<le> length s \<and> drop (length s - length suf) s = suf)"

definition startsWith :: "string \<Rightarrow> string \<Rightarrow> bool" where
  "startsWith s pre = (take (length pre) s = pre)"

text \<open>\<open>s.replace(pat, rep)\<close> with a string pattern: the first occurrence only. The
  replacement is taken as it is written; the only one of the source is the empty string.\<close>

fun replace :: "string \<Rightarrow> string \<Rightarrow> string \<Rightarrow> string" where
  "replace [] pat rep = (if pat = [] then rep else [])"
| "replace (c # cs) pat rep =
     (if startsWith (c # cs) pat then rep @ drop (length pat) (c # cs)
      else c # replace cs pat rep)"

definition is_AZ :: "char \<Rightarrow> bool" where
  "is_AZ c = (65 \<le> (of_char c :: nat) \<and> (of_char c :: nat) \<le> 90)"

text \<open>\<open>key.replace(/([A-Z])/g, "_$1")\<close>: every match of the class is replaced by an
  underscore followed by the match.\<close>

fun replace_AZ :: "string \<Rightarrow> string" where
  "replace_AZ [] = []"
| "replace_AZ (c # cs) = (if is_AZ c then CHR ''_'' # c # replace_AZ cs else c # replace_AZ cs)"

text \<open>\<open>Array.prototype.join\<close>.\<close>

fun join :: "string list \<Rightarrow> string \<Rightarrow> string" where
  "join [] sep = []"
| "join [x] sep = x"
| "join (x # y # ys) sep = x @ sep @ join (y # ys) sep"

text \<open>The decimal digits and the number that a string of them writes.\<close>

definition is_digit :: "char \<Rightarrow> bool" where
  "is_digit c = (48 \<le> (of_char c :: nat) \<and> (of_char c :: nat) \<le> 57)"

definition decimal :: "string \<Rightarrow> nat" where
  "decimal ds = foldl (\<lambda>a c. 10 * a + (of_char c - 48)) 0 ds"

section \<open>Environment names of a configuration directory\<close>

text \<open>
  The \<open>list\<close> actions of \<open>envCommand\<close> and \<open>createEnvironment\<close> (and \<open>listEnvironments\<close>)
  compute the environments from the entries of the configuration directory by
  \<^verbatim>\<open>files.filter(f => f.endsWith('.json') && f !== 'default.json').map(f => f.replace('.json', ''))\<close>.
\<close>

definition environments :: "string list \<Rightarrow> string list" where
  "environments dirents =
     map (\<lambda>f. replace f ''.json'' '''')
       (filter (\<lambda>f. endsWith f ''.json'' \<and> f \<noteq> ''default.json'') dirents)"

section \<open>Values\<close>

text \<open>
  A JSON value as \<open>JSON.parse\<close> returns it. The type \<open>'n\<close> stands for the numbers.
  An object is the list of its own properties in enumeration order, with distinct keys.
\<close>

datatype 'n json =
    JNull
  | JBool bool
  | JNum 'n
  | JStr string
  | JArr "'n json list"
  | JObj "(string \<times> 'n json) list"

text \<open>An entry of a list of keys and values is set: an existing key keeps its place, a
  new one comes last. This is the write of a file or of a secret, and the definition of
  an own property when an object is spread.\<close>

fun assign :: "'k \<Rightarrow> 'v \<Rightarrow> ('k \<times> 'v) list \<Rightarrow> ('k \<times> 'v) list" where
  "assign k v [] = [(k, v)]"
| "assign k v (p # ps) = (if fst p = k then (k, v) # ps else p # assign k v ps)"

definition delete_key :: "'k \<Rightarrow> ('k \<times> 'v) list \<Rightarrow> ('k \<times> 'v) list" where
  "delete_key k ps = filter (\<lambda>p. fst p \<noteq> k) ps"

text \<open>The spread of the properties \<open>src\<close> into the object under construction \<open>obj\<close>:
  \<open>{...a, ...b}\<close> is \<open>spread (spread [] a) b\<close>.\<close>

definition spread :: "('k \<times> 'v) list \<Rightarrow> ('k \<times> 'v) list \<Rightarrow> ('k \<times> 'v) list" where
  "spread obj src = fold (\<lambda>p. assign (fst p) (snd p)) src obj"




text \<open>A number that may be \<open>NaN\<close>: what \<open>parseInt\<close> returns, and what the option
  \<open>--days\<close> holds. A comparison with \<open>NaN\<close> is false.\<close>

datatype jsnum = NaN | Num int

fun lt :: "jsnum \<Rightarrow> int \<Rightarrow> bool" where
  "lt NaN b = False"
| "lt (Num a) b = (a < b)"

fun gt :: "jsnum \<Rightarrow> int \<Rightarrow> bool" where
  "gt NaN b = False"
| "gt (Num a) b = (a > b)"

fun isNaN :: "jsnum \<Rightarrow> bool" where
  "isNaN NaN = True"
| "isNaN (Num a) = False"

text \<open>
  What the commands take from the platform they run on is a parameter of the model: the
  built-ins of the language (\<open>JSON.parse\<close>, where \<open>None\<close> is a \<open>SyntaxError\<close>;
  \<open>JSON.stringify(v)\<close> and \<open>JSON.stringify(v, null, 2)\<close>; the conversion of a number to
  a string; \<open>toUpperCase\<close>; \<open>parseInt\<close>), the own properties and the property assignment of a value that is not a
  plain object (\<open>None\<close> is a \<open>TypeError\<close>), and the resource name the secret store
  gives a secret.
\<close>

record 'n platform =
  JSON_parse :: "string \<Rightarrow> 'n json option"
  JSON_stringify :: "'n json \<Rightarrow> string"
  JSON_stringify2 :: "'n json \<Rightarrow> string"
  Number_toString :: "'n \<Rightarrow> string"
  toUpperCase :: "string \<Rightarrow> string"
  parseInt :: "string \<Rightarrow> jsnum"
  exotic_entries :: "'n json \<Rightarrow> (string \<times> 'n json) list"
  exotic_set :: "'n json \<Rightarrow> string \<Rightarrow> 'n json option \<Rightarrow> 'n json option"
  ARN :: "string \<Rightarrow> string"

definition own_entries :: "'n platform \<Rightarrow> 'n json \<Rightarrow> (string \<times> 'n json) list" where
  "own_entries rt j = (case j of JObj kvs \<Rightarrow> kvs | _ \<Rightarrow> exotic_entries rt j)"

section \<open>The world the commands act on\<close>

datatype error =
    Error string
  | ResourceExistsException
  | ResourceNotFoundException
  | InvalidRequestException
  | InvalidParameterException
  | CredentialsProviderError
  | ENOENT string
  | SyntaxError
  | TypeError
  | ExitPromptError

text \<open>
  A line of the console: \<open>console.log(s)\<close>, \<open>console.error(s)\<close>,
  \<open>console.error(s, error.message)\<close>, and \<open>console.log\<close> of a text that ends with
  \<open>toISOString()\<close> of a date, which is kept as the time in milliseconds. The
  pictographs of the messages of the source are left out; the check mark and the ballot
  cross of the list of environments are kept, as their bytes.
\<close>

datatype event = Out string | Err string | ErrWith string error | OutDate string nat

text \<open>A description of a secret: a text, or a text that ends with \<open>toISOString()\<close> of
  a date.\<close>

datatype descr = Text string | TextDate string nat

datatype lifecycle = ACTIVE | PENDING_DELETION nat | DELETED

record secret =
  payload :: string
  description :: descr
  versionId :: nat
  lifecycle_state :: lifecycle

datatype deletion = ForceDeleteWithoutRecovery | RecoveryWindowInDays "jsnum option"

datatype request =
    GetSecretValue string
  | CreateSecret string string descr
  | UpdateSecret string string
  | DeleteSecret string deletion

text \<open>
  The state: the configuration directory (\<open>None\<close> when it does not exist, else its
  entries with their texts), the secret store with the requests sent to it so far and
  whether the credentials are valid, the clock in milliseconds, the answers the user
  will give to the confirmations and to the text prompts, and the console.
\<close>

record world =
  files :: "(string \<times> string) list option"
  secrets :: "(string \<times> secret) list"
  credentials :: bool
  sent :: "request list"
  clock :: nat
  confirms :: "bool list"
  inputs :: "string list"
  console :: "event list"

text \<open>A computation either throws or returns, and leaves a world.\<close>

type_synonym 'a io = "world \<Rightarrow> (error + 'a) \<times> world"

definition ret :: "'a \<Rightarrow> 'a io" where
  "ret x w = (Inr x, w)"

definition throw :: "error \<Rightarrow> 'a io" where
  "throw e w = (Inl e, w)"

definition seq :: "'a io \<Rightarrow> ('a \<Rightarrow> 'b io) \<Rightarrow> 'b io" where
  "seq m f w = (case m w of (Inl e, w') \<Rightarrow> (Inl e, w') | (Inr x, w') \<Rightarrow> f x w')"

text \<open>\<open>try { m } catch (error) { h }\<close>.\<close>

definition attempt :: "'a io \<Rightarrow> (error \<Rightarrow> 'a io) \<Rightarrow> 'a io" where
  "attempt m h w = (case m w of (Inl e, w') \<Rightarrow> h e w' | (Inr x, w') \<Rightarrow> (Inr x, w'))"

definition console_log :: "string \<Rightarrow> unit io" where
  "console_log s w = (Inr (), w\<lparr>console := console w @ [Out s]\<rparr>)"

definition console_error :: "string \<Rightarrow> unit io" where
  "console_error s w = (Inr (), w\<lparr>console := console w @ [Err s]\<rparr>)"

definition console_error_with :: "string \<Rightarrow> error \<Rightarrow> unit io" where
  "console_error_with s e w = (Inr (), w\<lparr>console := console w @ [ErrWith s e]\<rparr>)"

definition console_log_date :: "string \<Rightarrow> nat \<Rightarrow> unit io" where
  "console_log_date s t w = (Inr (), w\<lparr>console := console w @ [OutDate s t]\<rparr>)"

definition now :: "nat io" where
  "now w = (Inr (clock w), w)"

subsection \<open>Prompts\<close>

text \<open>
  Modelled from the spec: the prompts of the package \<open>inquirer\<close> are not in the source;
  by section 5 they are a decision capability that returns a boolean or a chosen value.
  \<open>confirm\<close> takes the user's next yes or no. \<open>input\<close> takes the next typed lines until
  one passes the validation, an empty line standing for the default; \<open>password\<close> is
  \<open>input\<close> with no default and no validation. A prompt that is closed before it is
  answered throws.
\<close>

definition prompt_confirm :: "string \<Rightarrow> bool io" where
  "prompt_confirm message w =
     (case confirms w of
        [] \<Rightarrow> (Inl ExitPromptError, w)
      | b # bs \<Rightarrow> (Inr b, w\<lparr>confirms := bs\<rparr>))"

fun first_valid :: "(string \<Rightarrow> bool) \<Rightarrow> string \<Rightarrow> string list \<Rightarrow> string option \<times> string list" where
  "first_valid validate dflt [] = (None, [])"
| "first_valid validate dflt (t # ts) =
     (let answer = (if t = [] then dflt else t)
      in if validate answer then (Some answer, ts) else first_valid validate dflt ts)"

definition prompt_input :: "string \<Rightarrow> string \<Rightarrow> (string \<Rightarrow> bool) \<Rightarrow> string io" where
  "prompt_input message dflt validate w =
     (case first_valid validate dflt (inputs w) of
        (None, ts) \<Rightarrow> (Inl ExitPromptError, w\<lparr>inputs := ts\<rparr>)
      | (Some answer, ts) \<Rightarrow> (Inr answer, w\<lparr>inputs := ts\<rparr>))"

subsection \<open>The configuration directory\<close>

text \<open>
  Modelled from the spec: the file system is the one of the platform, and by section 6
  the store of the configuration holds one document for each name. A file is named by
  its name in the one configuration directory (\<open>path.join(configDir, name)\<close> is the
  entry \<open>name\<close>); reading, removing or testing a file that is not there fails, and so
  does every operation but \<open>mkdir\<close> when the directory is not there.
\<close>

definition readFile :: "string \<Rightarrow> string io" where
  "readFile p w =
     (case files w of
        None \<Rightarrow> (Inl (ENOENT p), w)
      | Some fs \<Rightarrow> (case map_of fs p of None \<Rightarrow> (Inl (ENOENT p), w) | Some t \<Rightarrow> (Inr t, w)))"

definition access :: "string \<Rightarrow> unit io" where
  "access p = seq (readFile p) (\<lambda>_. ret ())"

definition writeFile :: "string \<Rightarrow> string \<Rightarrow> unit io" where
  "writeFile p t w =
     (case files w of
        None \<Rightarrow> (Inl (ENOENT p), w)
      | Some fs \<Rightarrow> (Inr (), w\<lparr>files := Some (assign p t fs)\<rparr>))"

definition mkdir :: "unit io" where
  "mkdir w = (Inr (), w\<lparr>files := Some (case files w of None \<Rightarrow> [] | Some fs \<Rightarrow> fs)\<rparr>)"

definition unlink :: "string \<Rightarrow> unit io" where
  "unlink p w =
     (case files w of
        None \<Rightarrow> (Inl (ENOENT p), w)
      | Some fs \<Rightarrow>
          (case map_of fs p of
             None \<Rightarrow> (Inl (ENOENT p), w)
           | Some t \<Rightarrow> (Inr (), w\<lparr>files := Some (delete_key p fs)\<rparr>)))"

definition readdir :: "string list io" where
  "readdir w = (case files w of None \<Rightarrow> (Inl (ENOENT []), w) | Some fs \<Rightarrow> (Inr (map fst fs), w))"

subsection \<open>The secret store\<close>

text \<open>
  Modelled from the spec: the secret store is a remote service, and only the requests
  the commands send to it are in the source. Its contract is the one of section 6 and
  its records and states are those of section 3: \<open>get\<close> fails with not-found when the
  name is absent; \<open>create\<close> fails with already-exists when the name is taken; \<open>update\<close>
  fails with not-found when the name is absent and gives the record a new version
  token; \<open>delete\<close> with force makes the record \<open>DELETED\<close>, and with a recovery window
  of 7 to 30 days makes it \<open>PENDING_DELETION\<close> with the deadline it returns, the
  current time plus the window. A request fails before it is sent when there are no
  valid credentials, and is recorded as sent otherwise; a request on a record that is not
  \<open>ACTIVE\<close> is refused. When the request names no window the service takes 30 days.
\<close>

definition send :: "request \<Rightarrow> unit io" where
  "send r w =
     (if credentials w then (Inr (), w\<lparr>sent := sent w @ [r]\<rparr>)
      else (Inl CredentialsProviderError, w))"

text \<open>Modelled from the spec: \<open>get\<close>, \<open>create\<close>, \<open>update\<close> and \<open>delete\<close> of the
  secret store (section 6), as the commands \<open>GetSecretValue\<close>, \<open>CreateSecret\<close>,
  \<open>UpdateSecret\<close> and \<open>DeleteSecret\<close> of its client.\<close>

definition send_GetSecretValue :: "string \<Rightarrow> string io" where
  "send_GetSecretValue name =
     seq (send (GetSecretValue name)) (\<lambda>_ w.
       case map_of (secrets w) name of
         None \<Rightarrow> (Inl ResourceNotFoundException, w)
       | Some s \<Rightarrow>
           if lifecycle_state s = ACTIVE then (Inr (payload s), w)
           else (Inl InvalidRequestException, w))"

definition send_CreateSecret :: "string \<Rightarrow> string \<Rightarrow> descr \<Rightarrow> unit io" where
  "send_CreateSecret name text descr =
     seq (send (CreateSecret name text descr)) (\<lambda>_ w.
       case map_of (secrets w) name of
         None \<Rightarrow>
           (Inr (), w\<lparr>secrets := assign name
              \<lparr>payload = text, description = descr, versionId = 0, lifecycle_state = ACTIVE\<rparr>
              (secrets w)\<rparr>)
       | Some s \<Rightarrow>
           if lifecycle_state s = ACTIVE then (Inl ResourceExistsException, w)
           else (Inl InvalidRequestException, w))"

definition send_UpdateSecret :: "string \<Rightarrow> string \<Rightarrow> unit io" where
  "send_UpdateSecret name text =
     seq (send (UpdateSecret name text)) (\<lambda>_ w.
       case map_of (secrets w) name of
         None \<Rightarrow> (Inl ResourceNotFoundException, w)
       | Some s \<Rightarrow>
           if lifecycle_state s = ACTIVE then
             (Inr (), w\<lparr>secrets := assign name
                (s\<lparr>payload := text, versionId := Suc (versionId s)\<rparr>) (secrets w)\<rparr>)
           else (Inl InvalidRequestException, w))"

definition ms_per_day :: nat where
  "ms_per_day = 86400000"

fun deletion_state :: "deletion \<Rightarrow> nat \<Rightarrow> lifecycle option" where
  "deletion_state ForceDeleteWithoutRecovery t = Some DELETED"
| "deletion_state (RecoveryWindowInDays None) t = Some (PENDING_DELETION (t + 30 * ms_per_day))"
| "deletion_state (RecoveryWindowInDays (Some NaN)) t = None"
| "deletion_state (RecoveryWindowInDays (Some (Num d))) t =
     (if 7 \<le> d \<and> d \<le> 30 then Some (PENDING_DELETION (t + nat d * ms_per_day)) else None)"

fun deadline :: "lifecycle \<Rightarrow> nat option" where
  "deadline (PENDING_DELETION t) = Some t"
| "deadline ACTIVE = None"
| "deadline DELETED = None"

text \<open>The response of a deletion: the resource name and, when the deletion is
  scheduled, its date.\<close>

definition send_DeleteSecret :: "'n platform \<Rightarrow> string \<Rightarrow> deletion \<Rightarrow> (string \<times> nat option) io" where
  "send_DeleteSecret rt name how =
     seq (send (DeleteSecret name how)) (\<lambda>_ w.
       case map_of (secrets w) name of
         None \<Rightarrow> (Inl ResourceNotFoundException, w)
       | Some s \<Rightarrow>
           if lifecycle_state s = ACTIVE then
             (case deletion_state how (clock w) of
                None \<Rightarrow> (Inl InvalidParameterException, w)
              | Some st \<Rightarrow>
                  (Inr (ARN rt name, deadline st),
                   w\<lparr>secrets := assign name (s\<lparr>lifecycle_state := st\<rparr>) (secrets w)\<rparr>))
           else (Inl InvalidRequestException, w))"

text \<open>
  Modelled from the spec: \<open>getSecretsClient\<close> of the package \<open>mysterio\<close> is not in the
  source. By section 4.1 it fetches the payload of the secret, parsed as JSON, and fails
  when the secret is absent or the credentials are not valid.
\<close>

definition secretsClient :: "'n platform \<Rightarrow> string \<Rightarrow> 'n json io" where
  "secretsClient rt secretName =
     seq (send_GetSecretValue secretName) (\<lambda>text.
       case JSON_parse rt text of None \<Rightarrow> throw SyntaxError | Some j \<Rightarrow> ret j)"

section \<open>The commands\<close>

text \<open>
  The options of a command line and the process-wide configuration. An option that the
  source only tests for truth (\<open>override\<close>, \<open>force\<close>, \<open>withAws\<close>, \<open>showAws\<close>,
  \<open>interactive\<close>) is a boolean; \<open>confirm\<close> is compared with \<open>false\<close> and \<open>days\<close> with
  \<open>undefined\<close>, so both are optional. The region is not modelled: there is one store.
  The calls of \<open>debug\<close> are left out.
\<close>

record options =
  opt_env :: "string option"
  opt_packageName :: "string option"
  opt_override :: bool
  opt_prefer :: "string option"
  opt_force :: bool
  opt_days :: "jsnum option"
  opt_confirm :: "bool option"
  opt_from :: "string option"
  opt_withAws :: bool
  opt_showAws :: bool
  opt_target :: "string option"
  opt_interactive :: bool
  opt_format :: "string option"

record config =
  packageName :: "string option"
  NODE_ENV :: "string option"

definition no_options :: options where
  "no_options =
     \<lparr>opt_env = None, opt_packageName = None, opt_override = False, opt_prefer = None,
      opt_force = False, opt_days = None, opt_confirm = None, opt_from = None,
      opt_withAws = False, opt_showAws = False, opt_target = None, opt_interactive = False,
      opt_format = None\<rparr>"

text \<open>\<open>a || b\<close> on strings that may be undefined: the empty string is false too.\<close>

fun or_else :: "string option \<Rightarrow> string option \<Rightarrow> string option" where
  "or_else None b = b"
| "or_else (Some a) b = (if a = [] then b else Some a)"

fun or_default :: "string option \<Rightarrow> string \<Rightarrow> string" where
  "or_default None d = d"
| "or_default (Some a) d = (if a = [] then d else a)"

definition dq :: string where
  "dq = [CHR 0x22]"

definition newline :: string where
  "newline = [CHR 0x0A]"

definition quoted :: "string \<Rightarrow> string" where
  "quoted s = [CHR 0x27] @ s @ [CHR 0x27]"

subsection \<open>deleteSecret\<close>

definition valid_window :: "'n platform \<Rightarrow> string \<Rightarrow> bool" where
  "valid_window rt v = (let num = parseInt rt v in \<not> (isNaN num \<or> lt num 7 \<or> gt num 30))"

text \<open>The choice of \<open>forceDelete\<close> and \<open>recoveryWindow\<close> (lines 456 to 487).\<close>

definition choose_deletion :: "'n platform \<Rightarrow> options \<Rightarrow> (bool \<times> jsnum option) io" where
  "choose_deletion rt opts =
     (case opt_days opts of
        Some d \<Rightarrow>
          if lt d 7 \<or> gt d 30 then
            seq (console_error ''Recovery window must be between 7 and 30 days'')
              (\<lambda>_. throw (Error ''Invalid recovery window''))
          else ret (opt_force opts, Some d)
      | None \<Rightarrow>
          if \<not> opt_force opts then
            seq (prompt_confirm ''Force immediate deletion without recovery window?'')
              (\<lambda>forceDeletion.
                 if forceDeletion then ret (True, None)
                 else
                   seq (prompt_input ''Recovery window in days (7-30):'' ''7'' (valid_window rt))
                     (\<lambda>days. ret (False, Some (parseInt rt days))))
          else ret (True, None))"

definition credentials_hint :: "unit io" where
  "credentials_hint =
     seq (console_log (newline @ ''AWS credentials not found. Please configure:'')) (\<lambda>_.
     seq (console_log ''   - Set AWS_ACCESS_KEY_ID and AWS_SECRET_ACCESS_KEY environment variables'') (\<lambda>_.
     seq (console_log ''   - Or configure AWS CLI: aws configure'') (\<lambda>_.
     console_log ''   - Or use IAM roles if running on AWS infrastructure'')))"

definition deleteSecret :: "'n platform \<Rightarrow> config \<Rightarrow> string \<Rightarrow> options \<Rightarrow> unit io" where
  "deleteSecret rt cfg environment opts =
     (case or_else (or_else (opt_packageName opts) (packageName cfg)) None of
        None \<Rightarrow>
          seq (console_error ''Package name is required. Use --package-name or set in .mysteriorc'')
            (\<lambda>_. throw (Error ''Package name not provided''))
      | Some pkg \<Rightarrow>
          (let secretName = pkg @ ''/'' @ environment in
           attempt
             (seq (if opt_confirm opts \<noteq> Some False then
                     prompt_confirm
                       (''Are you sure you want to delete secret '' @ quoted secretName @ ''?'')
                   else ret False)
                (\<lambda>deleteConfirmed.
                   if \<not> deleteConfirmed then console_log ''Operation cancelled''
                   else
                     seq (choose_deletion rt opts) (\<lambda>(forceDelete, recoveryWindow).
                     seq (send_DeleteSecret rt secretName
                            (if forceDelete then ForceDeleteWithoutRecovery
                             else RecoveryWindowInDays recoveryWindow)) (\<lambda>(arn, deletionDate).
                     seq (console_log ''Secret deletion initiated successfully'') (\<lambda>_.
                     seq (console_log (''Secret Name: '' @ secretName)) (\<lambda>_.
                     seq (console_log (''Secret ARN: '' @ arn)) (\<lambda>_.
                     case deletionDate of
                       Some t \<Rightarrow>
                         seq (console_log_date ''Scheduled deletion: '' t) (\<lambda>_.
                         console_log
                           ''Tip: Secret can be recovered before this date using AWS Console or CLI'')
                     | None \<Rightarrow>
                         console_log ''Secret was deleted immediately and cannot be recovered'')))))))
             (\<lambda>error.
                seq (if error = ResourceNotFoundException then
                       console_error
                         (''Secret '' @ quoted secretName @ '' not found in AWS Secrets Manager'')
                     else
                       seq (console_error_with ''Failed to delete secret:'' error) (\<lambda>_.
                       if error = CredentialsProviderError then credentials_hint else ret ()))
                  (\<lambda>_. throw error))))"

subsection \<open>getConfig: the projection of the result\<close>

text \<open>
  \<open>getConfig\<close> takes its result from the package \<open>mysterio\<close> and formats it (lines 565
  to 584); the formatting is modelled, with the result as its argument.
\<close>

fun envValue :: "'n platform \<Rightarrow> 'n json \<Rightarrow> string" where
  "envValue rt (JStr s) = s"
| "envValue rt (JNum n) = Number_toString rt n"
| "envValue rt (JBool b) = (if b then ''true'' else ''false'')"
| "envValue rt v = JSON_stringify rt v"

definition envKey :: "'n platform \<Rightarrow> string \<Rightarrow> string" where
  "envKey rt key = toUpperCase rt (replace_AZ key)"

definition toEnvFormat :: "'n platform \<Rightarrow> 'n json \<Rightarrow> string" where
  "toEnvFormat rt result =
     join (map (\<lambda>(key, v). envKey rt key @ ''='' @ envValue rt v) (own_entries rt result)) newline"

definition format_output :: "'n platform \<Rightarrow> options \<Rightarrow> 'n json \<Rightarrow> error + string" where
  "format_output rt opts result =
     (let format = or_default (opt_format opts) ''json'' in
      if format = ''json'' then Inr (JSON_stringify2 rt result)
      else if format = ''env'' then Inr (toEnvFormat rt result)
      else Inl (Error (''Invalid format: '' @ format @ ''. Use '' @ dq @ ''json'' @ dq @ '' or ''
                         @ dq @ ''env'' @ dq)))"

subsection \<open>setConfig and applyConfigValue\<close>


definition parse_json :: "'n platform \<Rightarrow> string \<Rightarrow> 'n json io" where
  "parse_json rt t = (case JSON_parse rt t of None \<Rightarrow> throw SyntaxError | Some j \<Rightarrow> ret j)"









subsection \<open>awsCommand\<close>

definition aws_push :: "'n platform \<Rightarrow> string \<Rightarrow> string \<Rightarrow> options \<Rightarrow> unit io" where
  "aws_push rt secretName environment opts =
     (let configFile = environment @ ''.json'' in
      seq (attempt (readFile configFile)
             (\<lambda>error. seq (console_error (''Local config not found: '' @ configFile))
                        (\<lambda>_. throw error))) (\<lambda>configData.
      attempt
        (seq now (\<lambda>t.
         seq (send_CreateSecret secretName configData
                (TextDate ''Pushed from local config - '' t)) (\<lambda>_.
         seq (console_log ''Pushed local config to AWS Secrets Manager'') (\<lambda>_.
         console_log (''Secret: '' @ secretName)))))
        (\<lambda>error.
           if error = ResourceExistsException then
             seq (if \<not> opt_override opts then
                    seq (prompt_confirm (''Secret '' @ quoted secretName @ '' exists. Override?''))
                      (\<lambda>shouldOverride.
                         if \<not> shouldOverride then
                           seq (console_log ''Operation cancelled'') (\<lambda>_. ret False)
                         else ret True)
                  else ret True) (\<lambda>proceed.
             if proceed then
               seq (send_UpdateSecret secretName configData) (\<lambda>_.
               console_log ''Updated existing secret in AWS'')
             else ret ())
           else throw error)))"

definition aws_pull :: "'n platform \<Rightarrow> string \<Rightarrow> string \<Rightarrow> options \<Rightarrow> unit io" where
  "aws_pull rt secretName environment opts =
     attempt
       (seq (secretsClient rt secretName) (\<lambda>secrets.
        let configFile = environment @ ''.json'' in
        seq (if \<not> opt_override opts then
               attempt
                 (seq (access configFile) (\<lambda>_.
                  seq (prompt_confirm
                         (''Local config exists for '' @ quoted environment @ ''. Override?''))
                    (\<lambda>shouldOverride.
                       if \<not> shouldOverride then
                         seq (console_log ''Operation cancelled'') (\<lambda>_. ret False)
                       else ret True)))
                 (\<lambda>_. ret True)
             else ret True) (\<lambda>proceed.
        if proceed then
          seq (writeFile configFile (JSON_stringify2 rt secrets)) (\<lambda>_.
          seq (console_log ''Pulled AWS secrets to local config'') (\<lambda>_.
          console_log (''Saved to: '' @ configFile)))
        else ret ())))
       (\<lambda>error. seq (console_error_with ''Failed to pull secrets from AWS:'' error)
                  (\<lambda>_. throw error))"

text \<open>The merge of \<open>sync\<close> (lines 856 to 859).\<close>

definition merged :: "'n platform \<Rightarrow> string \<Rightarrow> 'n json \<Rightarrow> 'n json \<Rightarrow> 'n json" where
  "merged rt prefer localConfig awsConfig =
     JObj (if prefer = ''local''
           then spread (spread [] (own_entries rt awsConfig)) (own_entries rt localConfig)
           else spread (spread [] (own_entries rt localConfig)) (own_entries rt awsConfig))"

definition aws_sync :: "'n platform \<Rightarrow> string \<Rightarrow> string \<Rightarrow> options \<Rightarrow> unit io" where
  "aws_sync rt secretName environment opts =
     (let prefer = or_default (opt_prefer opts) ''local'';
          configFile = environment @ ''.json''
      in
      seq (console_log (''Syncing with preference: '' @ prefer)) (\<lambda>_.
      seq (attempt (seq (readFile configFile) (parse_json rt))
             (\<lambda>_. seq (console_log ''No local config found'') (\<lambda>_. ret (JObj [])))) (\<lambda>localConfig.
      seq (attempt (secretsClient rt secretName)
             (\<lambda>_. seq (console_log ''No AWS secret found'') (\<lambda>_. ret (JObj [])))) (\<lambda>awsConfig.
      seq (writeFile configFile (JSON_stringify2 rt (merged rt prefer localConfig awsConfig))) (\<lambda>_.
      seq (attempt
             (send_UpdateSecret secretName (JSON_stringify rt (merged rt prefer localConfig awsConfig)))
             (\<lambda>error.
                if error = ResourceNotFoundException then
                  seq now (\<lambda>t.
                  send_CreateSecret secretName
                    (JSON_stringify rt (merged rt prefer localConfig awsConfig))
                    (TextDate ''Synced - '' t))
                else throw error)) (\<lambda>_.
      seq (console_log ''Synced configuration'') (\<lambda>_.
      seq (console_log (''Local: '' @ configFile)) (\<lambda>_.
      console_log (''AWS: '' @ secretName)))))))))"

definition awsCommand :: "'n platform \<Rightarrow> config \<Rightarrow> string \<Rightarrow> options \<Rightarrow> unit io" where
  "awsCommand rt cfg action opts =
     (let environment = or_default (or_else (opt_env opts) (NODE_ENV cfg)) ''local'' in
      case or_else (or_else (opt_packageName opts) (packageName cfg)) None of
        None \<Rightarrow>
          seq (console_error ''Package name required. Use --package-name or set in .mysteriorc'')
            (\<lambda>_. throw (Error ''Package name not provided''))
      | Some pkg \<Rightarrow>
          (let secretName = pkg @ ''/'' @ environment in
           attempt
             (if action = ''push'' then aws_push rt secretName environment opts
              else if action = ''pull'' then aws_pull rt secretName environment opts
              else if action = ''sync'' then aws_sync rt secretName environment opts
              else if action = ''delete'' then deleteSecret rt cfg environment opts
              else throw (Error (''Unknown AWS action: '' @ action)))
             (\<lambda>error.
                seq (console_error_with ''AWS operation failed:'' error) (\<lambda>_.
                seq (if error = CredentialsProviderError then
                       seq (console_log (newline @ ''AWS credentials not found. Please configure:'')) (\<lambda>_.
                       seq (console_log ''   - Set AWS_ACCESS_KEY_ID and AWS_SECRET_ACCESS_KEY'') (\<lambda>_.
                       console_log ''   - Or run: aws configure''))
                     else ret ()) (\<lambda>_.
                throw error)))))"

subsection \<open>envCommand\<close>

definition ask_name :: "string option \<Rightarrow> string \<Rightarrow> string io" where
  "ask_name name message =
     (case or_else name None of
        None \<Rightarrow> prompt_input message [] (\<lambda>_. True)
      | Some n \<Rightarrow> ret n)"

definition template_data :: "'n platform \<Rightarrow> string \<Rightarrow> options \<Rightarrow> (string \<times> 'n json) list io" where
  "template_data rt name opts =
     (case or_else (opt_from opts) None of
        None \<Rightarrow> ret [(''environment'', JStr name)]
      | Some tmpl \<Rightarrow>
          attempt
            (seq (readFile (tmpl @ ''.json'')) (\<lambda>templateContent.
             seq (parse_json rt templateContent) (\<lambda>t.
             seq (console_log (''Using template from: '' @ tmpl)) (\<lambda>_.
             ret (assign ''environment'' (JStr name) (spread [] (own_entries rt t)))))))
            (\<lambda>_. seq (console_error (''Template environment '' @ quoted tmpl @ '' not found''))
                   (\<lambda>_. throw (Error ''Template not found''))))"

definition env_create :: "'n platform \<Rightarrow> config \<Rightarrow> string option \<Rightarrow> options \<Rightarrow> unit io" where
  "env_create rt cfg name0 opts =
     seq (ask_name name0 ''Environment name:'') (\<lambda>name.
     let configFile = name @ ''.json'' in
     seq (attempt (seq (access configFile) (\<lambda>_. ret True)) (\<lambda>_. ret False)) (\<lambda>found.
     if found then console_error (''Environment '' @ quoted name @ '' already exists'')
     else
       seq (template_data rt name opts) (\<lambda>configData.
       seq mkdir (\<lambda>_.
       seq (writeFile configFile (JSON_stringify2 rt (JObj configData))) (\<lambda>_.
       seq (console_log (''Created environment: '' @ name)) (\<lambda>_.
       if opt_withAws opts \<and> or_else (packageName cfg) None \<noteq> None then
         awsCommand rt cfg ''push'' (no_options\<lparr>opt_env := Some name, opt_override := False\<rparr>)
       else ret ()))))))"

definition check_mark :: string where
  "check_mark = [CHR 0xE2, CHR 0x9C, CHR 0x93]"

definition ballot_x :: string where
  "ballot_x = [CHR 0xE2, CHR 0x9C, CHR 0x97]"

fun list_status :: "'n platform \<Rightarrow> config \<Rightarrow> options \<Rightarrow> string list \<Rightarrow> unit io" where
  "list_status rt cfg opts [] = ret ()"
| "list_status rt cfg opts (env # envs) =
     seq (case (if opt_showAws opts then or_else (packageName cfg) None else None) of
            None \<Rightarrow> ret (''   '' @ env)
          | Some pkg \<Rightarrow>
              attempt
                (seq (secretsClient rt (pkg @ ''/'' @ env)) (\<lambda>_.
                 ret (''   '' @ env @ ''   [AWS '' @ check_mark @ '']'')))
                (\<lambda>_. ret (''   '' @ env @ ''   [AWS '' @ ballot_x @ '']''))) (\<lambda>status.
     seq (console_log status) (\<lambda>_.
     list_status rt cfg opts envs))"

definition env_list :: "'n platform \<Rightarrow> config \<Rightarrow> options \<Rightarrow> unit io" where
  "env_list rt cfg opts =
     seq readdir (\<lambda>dirents.
     seq (console_log ''Environments:'') (\<lambda>_.
     list_status rt cfg opts (environments dirents)))"

definition env_delete :: "'n platform \<Rightarrow> config \<Rightarrow> string option \<Rightarrow> options \<Rightarrow> unit io" where
  "env_delete rt cfg name0 opts =
     seq (ask_name name0 ''Environment to delete:'') (\<lambda>name.
     seq (prompt_confirm (''Delete environment '' @ quoted name @ ''?'')) (\<lambda>confirmed.
     if \<not> confirmed then console_log ''Cancelled''
     else
       seq (unlink (name @ ''.json'')) (\<lambda>_.
       seq (console_log (''Deleted local environment: '' @ name)) (\<lambda>_.
       if opt_withAws opts \<and> or_else (packageName cfg) None \<noteq> None then
         awsCommand rt cfg ''delete''
           (no_options\<lparr>opt_env := Some name, opt_force := opt_force opts, opt_days := opt_days opts\<rparr>)
       else ret ()))))"

definition envCommand :: "'n platform \<Rightarrow> config \<Rightarrow> string \<Rightarrow> string option \<Rightarrow> options \<Rightarrow> unit io" where
  "envCommand rt cfg action name opts =
     attempt
       (if action = ''create'' then env_create rt cfg name opts
        else if action = ''list'' then env_list rt cfg opts
        else if action = ''delete'' then env_delete rt cfg name opts
        else throw (Error (''Unknown action: '' @ action @ ''. Use '' @ quoted ''create'' @ '', ''
                             @ quoted ''list'' @ '', or '' @ quoted ''delete'')))
       (\<lambda>error. seq (console_error_with ''Environment operation failed:'' error)
                  (\<lambda>_. throw error))"

section \<open>Vocabulary of the statements\<close>

text \<open>
  The documents of the two sides as \<open>sync\<close> reads them: the local document of an
  environment and the payload of its secret, each the empty mapping when it is absent or
  cannot be read.
\<close>

definition local_document :: "'n platform \<Rightarrow> world \<Rightarrow> string \<Rightarrow> 'n json" where
  "local_document rt w environment =
     (case files w of
        None \<Rightarrow> JObj []
      | Some fs \<Rightarrow>
          (case map_of fs (environment @ ''.json'') of
             None \<Rightarrow> JObj []
           | Some t \<Rightarrow> (case JSON_parse rt t of None \<Rightarrow> JObj [] | Some j \<Rightarrow> j)))"

definition remote_document :: "'n platform \<Rightarrow> world \<Rightarrow> string \<Rightarrow> 'n json" where
  "remote_document rt w secretName =
     (case map_of (secrets w) secretName of
        None \<Rightarrow> JObj []
      | Some s \<Rightarrow>
          if credentials w \<and> lifecycle_state s = ACTIVE then
            (case JSON_parse rt (payload s) of None \<Rightarrow> JObj [] | Some j \<Rightarrow> j)
          else JObj [])"

text \<open>The package name and the environment a command works with, and the name of the
  secret (\<open>packageName/environment\<close>).\<close>

definition package_of :: "config \<Rightarrow> options \<Rightarrow> string option" where
  "package_of cfg opts = or_else (or_else (opt_packageName opts) (packageName cfg)) None"

definition environment_of :: "config \<Rightarrow> options \<Rightarrow> string" where
  "environment_of cfg opts = or_default (or_else (opt_env opts) (NODE_ENV cfg)) ''local''"

definition secret_name :: "string \<Rightarrow> string \<Rightarrow> string" where
  "secret_name pkg environment = pkg @ ''/'' @ environment"

text \<open>The secret of a name is there and active.\<close>

definition active_secret :: "world \<Rightarrow> string \<Rightarrow> bool" where
  "active_secret w secretName =
     (case map_of (secrets w) secretName of
        None \<Rightarrow> False
      | Some s \<Rightarrow> lifecycle_state s = ACTIVE)"

text \<open>The projection as the specification words it: the key in upper snake case, the
  value as its literal when it is a scalar and as its compact JSON text otherwise, one
  line for each entry, the lines joined by newlines.\<close>

definition upper_snake_case :: "'n platform \<Rightarrow> string \<Rightarrow> string" where
  "upper_snake_case rt key =
     toUpperCase rt (concat (map (\<lambda>c. if is_AZ c then [CHR ''_'', c] else [c]) key))"

definition literal_or_json :: "'n platform \<Rightarrow> 'n json \<Rightarrow> string" where
  "literal_or_json rt v =
     (case v of
        JStr s \<Rightarrow> s
      | JNum n \<Rightarrow> Number_toString rt n
      | JBool b \<Rightarrow> (if b then ''true'' else ''false'')
      | _ \<Rightarrow> JSON_stringify rt v)"

definition key_value_lines :: "'n platform \<Rightarrow> 'n json \<Rightarrow> string list" where
  "key_value_lines rt doc =
     map (\<lambda>p. upper_snake_case rt (fst p) @ ''='' @ literal_or_json rt (snd p)) (own_entries rt doc)"

definition joined_by_newlines :: "string list \<Rightarrow> string" where
  "joined_by_newlines ls =
     (case ls of [] \<Rightarrow> [] | l # ls' \<Rightarrow> l @ concat (map (\<lambda>m. newline @ m) ls'))"



text \<open>The line that the list of environments prints for an environment: its name, and
  with \<open>--show-aws\<close> and a package name a mark that tells whether its secret could be
  read.\<close>

definition readable :: "'n platform \<Rightarrow> world \<Rightarrow> string \<Rightarrow> bool" where
  "readable rt w secretName =
     (credentials w \<and>
      (case map_of (secrets w) secretName of
         None \<Rightarrow> False
       | Some s \<Rightarrow> lifecycle_state s = ACTIVE \<and> JSON_parse rt (payload s) \<noteq> None))"

definition listed_line :: "'n platform \<Rightarrow> config \<Rightarrow> options \<Rightarrow> world \<Rightarrow> string \<Rightarrow> string" where
  "listed_line rt cfg opts w e =
     (case (if opt_showAws opts then or_else (packageName cfg) None else None) of
        None \<Rightarrow> ''   '' @ e
      | Some pkg \<Rightarrow>
          ''   '' @ e @ ''   [AWS ''
            @ (if readable rt w (pkg @ ''/'' @ e) then check_mark else ballot_x) @ '']'')"

section \<open>A platform and a world for the examples\<close>

text \<open>
  The theorems are run on a platform of integer numbers and ASCII strings that need no
  escape: the two printers of JSON, a \<open>JSON.parse\<close> that inverts them on the values
  of the examples, \<open>toUpperCase\<close> on the ASCII letters and \<open>parseInt\<close> on decimal
  numerals. An array and a string have their indices as own properties; a property
  assignment to a value that is not a plain object is taken to throw.
\<close>

fun digits :: "nat \<Rightarrow> string" where
  "digits n =
     (if n < 10 then [''0123456789'' ! n]
      else digits (n div 10) @ [''0123456789'' ! (n mod 10)])"

definition show_int :: "int \<Rightarrow> string" where
  "show_int i = (if i < 0 then ''-'' @ digits (nat (- i)) else digits (nat i))"

fun compact :: "int json \<Rightarrow> string"
  and compact_elems :: "int json list \<Rightarrow> string"
  and compact_fields :: "(string \<times> int json) list \<Rightarrow> string" where
  "compact JNull = ''null''"
| "compact (JBool b) = (if b then ''true'' else ''false'')"
| "compact (JNum n) = show_int n"
| "compact (JStr s) = dq @ s @ dq"
| "compact (JArr xs) = ''['' @ compact_elems xs @ '']''"
| "compact (JObj kvs) = ''{'' @ compact_fields kvs @ ''}''"
| "compact_elems [] = []"
| "compact_elems [x] = compact x"
| "compact_elems (x # y # ys) = compact x @ '','' @ compact_elems (y # ys)"
| "compact_fields [] = []"
| "compact_fields [(k, v)] = dq @ k @ dq @ '':'' @ compact v"
| "compact_fields ((k, v) # p # ps) =
     dq @ k @ dq @ '':'' @ compact v @ '','' @ compact_fields (p # ps)"

fun pretty :: "nat \<Rightarrow> int json \<Rightarrow> string"
  and pretty_elems :: "nat \<Rightarrow> int json list \<Rightarrow> string"
  and pretty_fields :: "nat \<Rightarrow> (string \<times> int json) list \<Rightarrow> string" where
  "pretty i JNull = ''null''"
| "pretty i (JBool b) = (if b then ''true'' else ''false'')"
| "pretty i (JNum n) = show_int n"
| "pretty i (JStr s) = dq @ s @ dq"
| "pretty i (JArr xs) =
     (if xs = [] then ''[]''
      else ''['' @ newline @ pretty_elems (i + 2) xs @ newline @ replicate i CHR '' '' @ '']'')"
| "pretty i (JObj kvs) =
     (if kvs = [] then ''{}''
      else ''{'' @ newline @ pretty_fields (i + 2) kvs @ newline @ replicate i CHR '' '' @ ''}'')"
| "pretty_elems i [] = []"
| "pretty_elems i [x] = replicate i CHR '' '' @ pretty i x"
| "pretty_elems i (x # y # ys) =
     replicate i CHR '' '' @ pretty i x @ '','' @ newline @ pretty_elems i (y # ys)"
| "pretty_fields i [] = []"
| "pretty_fields i [(k, v)] = replicate i CHR '' '' @ dq @ k @ dq @ '': '' @ pretty i v"
| "pretty_fields i ((k, v) # p # ps) =
     replicate i CHR '' '' @ dq @ k @ dq @ '': '' @ pretty i v @ '','' @ newline
       @ pretty_fields i (p # ps)"

definition upper_char :: "char \<Rightarrow> char" where
  "upper_char c =
     (case map_of (zip ''abcdefghijklmnopqrstuvwxyz'' ''ABCDEFGHIJKLMNOPQRSTUVWXYZ'') c of
        None \<Rightarrow> c
      | Some C \<Rightarrow> C)"

definition decimal_parseInt :: "string \<Rightarrow> jsnum" where
  "decimal_parseInt s =
     (let t = dropWhile (\<lambda>c. c = CHR '' '') s;
          u = (if take 1 t = ''-'' \<or> take 1 t = ''+'' then drop 1 t else t);
          ds = takeWhile is_digit u
      in if ds = [] then NaN
         else Num (if take 1 t = ''-'' then - int (decimal ds) else int (decimal ds)))"

fun index_entries :: "nat \<Rightarrow> 'v list \<Rightarrow> (string \<times> 'v) list" where
  "index_entries i [] = []"
| "index_entries i (x # xs) = (digits i, x) # index_entries (Suc i) xs"

definition demo_documents :: "int json list" where
  "demo_documents =
     [JObj [],
      JObj [(''x'', JNum 1), (''y'', JNum 2)],
      JObj [(''y'', JNum 9), (''z'', JNum 3)],
      JObj [(''port'', JNum 8080)],
      JObj [(''environment'', JStr ''staging'')],
      JObj [(''x'', JNum 1), (''y'', JStr ''123'')],
      JNum 123, JBool True, JNull]"

definition demo :: "int platform" where
  "demo =
     \<lparr>JSON_parse =
        map_of (map (\<lambda>j. (compact j, j)) demo_documents @ map (\<lambda>j. (pretty 0 j, j)) demo_documents),
      JSON_stringify = compact,
      JSON_stringify2 = pretty 0,
      Number_toString = show_int,
      toUpperCase = map upper_char,
      parseInt = decimal_parseInt,
      exotic_entries =
        (\<lambda>j. case j of
               JArr xs \<Rightarrow> index_entries 0 xs
             | JStr s \<Rightarrow> index_entries 0 (map (\<lambda>c. JStr [c]) s)
             | _ \<Rightarrow> []),
      exotic_set = (\<lambda>obj key v. None),
      ARN = (\<lambda>name. ''arn:aws:secretsmanager:us-east-1:000000000000:secret:'' @ name)\<rparr>"

definition demo_config :: config where
  "demo_config = \<lparr>packageName = Some ''app'', NODE_ENV = None\<rparr>"

text \<open>A world with the environments \<open>prod\<close> and \<open>staging\<close>, and the secret of
  \<open>prod\<close>: locally \<open>prod\<close> is \<open>{x: 1, y: 2}\<close>, remotely it is \<open>{y: 9, z: 3}\<close>.\<close>

definition demo_world :: world where
  "demo_world =
     \<lparr>files = Some
        [(''default.json'', pretty 0 (JObj [])),
         (''prod.json'', pretty 0 (JObj [(''x'', JNum 1), (''y'', JNum 2)])),
         (''staging.json'', pretty 0 (JObj [(''environment'', JStr ''staging'')]))],
      secrets =
        [(''app/prod'',
          \<lparr>payload = compact (JObj [(''y'', JNum 9), (''z'', JNum 3)]),
           description = Text ''Secrets for app - prod environment'',
           versionId = 0, lifecycle_state = ACTIVE\<rparr>)],
      credentials = True, sent = [], clock = 1700000000000,
      confirms = [], inputs = [], console = []\<rparr>"

section \<open>Auxiliary facts\<close>

lemmas io_defs = ret_def throw_def seq_def attempt_def console_log_def console_error_def
  console_error_with_def console_log_date_def now_def prompt_confirm_def prompt_input_def
  Let_def

lemmas name_defs = package_of_def environment_of_def secret_name_def

lemma map_of_assign: "map_of (assign k v ps) = (map_of ps)(k \<mapsto> v)"
  by (induction ps) (auto simp: fun_eq_iff)

lemma keys_assign: "fst ` set (assign k v ps) = insert k (fst ` set ps)"
  by (induction ps) auto

lemma distinct_assign: "distinct (map fst ps) \<Longrightarrow> distinct (map fst (assign k v ps))"
  by (induction ps) (auto simp: keys_assign)

lemma keys_spread: "fst ` set (spread obj src) = fst ` set obj \<union> fst ` set src"
  unfolding spread_def by (induction src arbitrary: obj) (auto simp: keys_assign)

lemma distinct_spread: "distinct (map fst obj) \<Longrightarrow> distinct (map fst (spread obj src))"
  unfolding spread_def by (induction src arbitrary: obj) (auto simp: distinct_assign)

lemma map_of_spread:
  "distinct (map fst src) \<Longrightarrow> map_of (spread obj src) = map_of obj ++ map_of src"
  unfolding spread_def
proof (induction src arbitrary: obj)
  case Nil
  then show ?case by simp
next
  case (Cons p src)
  then have "fst p \<notin> dom (map_of src)" by (auto simp: dom_map_of_conv_image_fst)
  then have "map_of src (fst p) = None" by blast
  with Cons show ?case
    by (cases p) (auto simp: map_of_assign fun_eq_iff map_add_def split: option.splits)
qed

lemma delete_cancelled_without_prompt:
  assumes "opt_confirm opts = Some False"
    and "package_of cfg opts = Some pkg"
  shows "deleteSecret rt cfg environment opts w =
           (Inr (), w\<lparr>console := console w @ [Out ''Operation cancelled'']\<rparr>)"
  using assms by (simp add: deleteSecret_def io_defs name_defs)

lemma delete_declined:
  assumes "opt_confirm opts \<noteq> Some False" "confirms w = False # cs"
    and "package_of cfg opts = Some pkg"
  shows "deleteSecret rt cfg environment opts w =
           (Inr (), w\<lparr>confirms := cs, console := console w @ [Out ''Operation cancelled'']\<rparr>)"
  using assms by (simp add: deleteSecret_def io_defs name_defs)

lemma delete_invalid_window:
  assumes "package_of cfg opts = Some pkg"
    and "opt_confirm opts \<noteq> Some False" "confirms w = True # cs"
    and "opt_days opts = Some d" "lt d 7 \<or> gt d 30"
  shows "deleteSecret rt cfg environment opts w =
     (Inl (Error ''Invalid recovery window''),
      w\<lparr>confirms := cs, console := console w @ [Err ''Recovery window must be between 7 and 30 days'',
          ErrWith ''Failed to delete secret:'' (Error ''Invalid recovery window'')]\<rparr>)"
  using assms by (simp add: deleteSecret_def choose_deletion_def io_defs name_defs)

lemma send_DeleteSecret_errors:
  "fst (send_DeleteSecret rt name how w) \<noteq> Inl (Error msg)"
  by (simp add: send_DeleteSecret_def send_def io_defs split: option.splits)

lemma delete_valid_window_error:
  assumes "package_of cfg opts = Some pkg"
    and "opt_confirm opts \<noteq> Some False" "confirms w = True # cs"
    and "opt_days opts = Some d" "\<not> (lt d 7 \<or> gt d 30)"
  shows "fst (deleteSecret rt cfg environment opts w) \<noteq> Inl (Error msg)"
  using assms
  by (simp add: deleteSecret_def choose_deletion_def send_DeleteSecret_def send_def credentials_hint_def
      io_defs name_defs split: option.splits prod.splits sum.splits)

lemma delete_scheduled:
  assumes "package_of cfg opts = Some pkg"
    and "opt_confirm opts \<noteq> Some False" "confirms w = True # cs"
    and "opt_days opts = Some (Num n)" "7 \<le> n" "n \<le> 30" "\<not> opt_force opts"
    and "credentials w" "map_of (secrets w) (secret_name pkg environment) = Some s"
    and "lifecycle_state s = ACTIVE"
  shows "deleteSecret rt cfg environment opts w =
     (Inr (),
      w\<lparr>confirms := cs,
        sent := sent w @ [DeleteSecret (secret_name pkg environment) (RecoveryWindowInDays (Some (Num n)))],
        secrets := assign (secret_name pkg environment)
           (s\<lparr>lifecycle_state := PENDING_DELETION (clock w + nat n * ms_per_day)\<rparr>) (secrets w),
        console := console w @
          [Out ''Secret deletion initiated successfully'',
           Out (''Secret Name: '' @ secret_name pkg environment),
           Out (''Secret ARN: '' @ ARN rt (secret_name pkg environment)),
           OutDate ''Scheduled deletion: '' (clock w + nat n * ms_per_day),
           Out ''Tip: Secret can be recovered before this date using AWS Console or CLI'']\<rparr>)"
  using assms
  by (simp add: deleteSecret_def choose_deletion_def send_DeleteSecret_def send_def
      io_defs name_defs)

lemma delete_forced_with_days:
  assumes "package_of cfg opts = Some pkg"
    and "opt_confirm opts \<noteq> Some False" "confirms w = True # cs"
    and "opt_days opts = Some (Num n)" "7 \<le> n" "n \<le> 30" "opt_force opts"
    and "credentials w" "map_of (secrets w) (secret_name pkg environment) = Some s"
    and "lifecycle_state s = ACTIVE"
  shows "secrets (snd (deleteSecret rt cfg environment opts w)) =
      assign (secret_name pkg environment) (s\<lparr>lifecycle_state := DELETED\<rparr>) (secrets w)"
  using assms
  by (simp add: deleteSecret_def choose_deletion_def send_DeleteSecret_def send_def
      io_defs name_defs)

lemmas store_defs = send_def send_GetSecretValue_def send_CreateSecret_def send_UpdateSecret_def
  secretsClient_def readFile_def writeFile_def access_def parse_json_def

lemma sync_run:
  fixes rt :: "'n platform" and cfg opts w pkg fs
  assumes pkg: "package_of cfg opts = Some pkg"
    and dir: "files w = Some fs"
    and cred: "credentials w"
    and rec: "map_of (secrets w) (secret_name pkg (environment_of cfg opts)) = None
              \<or> active_secret w (secret_name pkg (environment_of cfg opts))"
  defines "name \<equiv> secret_name pkg (environment_of cfg opts)"
    and "m \<equiv> merged rt (or_default (opt_prefer opts) ''local'')
                 (local_document rt w (environment_of cfg opts))
                 (remote_document rt w (secret_name pkg (environment_of cfg opts)))"
  shows "fst (awsCommand rt cfg ''sync'' opts w) = Inr ()"
    and "files (snd (awsCommand rt cfg ''sync'' opts w)) =
           Some (assign (environment_of cfg opts @ ''.json'') (JSON_stringify2 rt m) fs)"
    and "secrets (snd (awsCommand rt cfg ''sync'' opts w)) =
           (case map_of (secrets w) name of
              None \<Rightarrow> assign name
                 \<lparr>payload = JSON_stringify rt m, description = TextDate ''Synced - '' (clock w),
                  versionId = 0, lifecycle_state = ACTIVE\<rparr> (secrets w)
            | Some s \<Rightarrow> assign name
                 (s\<lparr>payload := JSON_stringify rt m, versionId := Suc (versionId s)\<rparr>) (secrets w))"
    and "sent (snd (awsCommand rt cfg ''sync'' opts w)) =
           sent w @ [GetSecretValue name, UpdateSecret name (JSON_stringify rt m)] @
           (case map_of (secrets w) name of
              None \<Rightarrow> [CreateSecret name (JSON_stringify rt m) (TextDate ''Synced - '' (clock w))]
            | Some s \<Rightarrow> [])"
  using assms
  by (auto simp: awsCommand_def aws_sync_def local_document_def remote_document_def
      active_secret_def store_defs io_defs name_defs split: option.splits)

lemma push_creates:
  fixes rt :: "'n platform"
  assumes "package_of cfg opts = Some pkg"
    and "files w = Some fs" "map_of fs (environment_of cfg opts @ ''.json'') = Some t"
    and "credentials w"
    and "map_of (secrets w) (secret_name pkg (environment_of cfg opts)) = None"
  shows "awsCommand rt cfg ''push'' opts w =
     (Inr (),
      w\<lparr>sent := sent w @ [CreateSecret (secret_name pkg (environment_of cfg opts)) t
                            (TextDate ''Pushed from local config - '' (clock w))],
        secrets := assign (secret_name pkg (environment_of cfg opts))
           \<lparr>payload = t, description = TextDate ''Pushed from local config - '' (clock w),
            versionId = 0, lifecycle_state = ACTIVE\<rparr> (secrets w),
        console := console w @
          [Out ''Pushed local config to AWS Secrets Manager'',
           Out (''Secret: '' @ secret_name pkg (environment_of cfg opts))]\<rparr>)"
  using assms
  by (simp add: awsCommand_def aws_push_def store_defs io_defs name_defs)

lemma push_declined:
  fixes rt :: "'n platform"
  assumes "package_of cfg opts = Some pkg"
    and "files w = Some fs" "map_of fs (environment_of cfg opts @ ''.json'') = Some t"
    and "credentials w"
    and "active_secret w (secret_name pkg (environment_of cfg opts))"
    and "\<not> opt_override opts" "confirms w = False # cs"
  shows "awsCommand rt cfg ''push'' opts w =
     (Inr (),
      w\<lparr>sent := sent w @ [CreateSecret (secret_name pkg (environment_of cfg opts)) t
                            (TextDate ''Pushed from local config - '' (clock w))],
        confirms := cs,
        console := console w @ [Out ''Operation cancelled'']\<rparr>)"
  using assms
  by (auto simp: awsCommand_def aws_push_def active_secret_def store_defs io_defs name_defs
      split: option.splits)

lemma push_updates:
  fixes rt :: "'n platform"
  assumes "package_of cfg opts = Some pkg"
    and "files w = Some fs" "map_of fs (environment_of cfg opts @ ''.json'') = Some t"
    and "credentials w"
    and "map_of (secrets w) (secret_name pkg (environment_of cfg opts)) = Some s"
    and "lifecycle_state s = ACTIVE"
    and "opt_override opts \<or> (\<exists>cs. confirms w = True # cs)"
  shows "fst (awsCommand rt cfg ''push'' opts w) = Inr ()"
    and "secrets (snd (awsCommand rt cfg ''push'' opts w)) =
       assign (secret_name pkg (environment_of cfg opts))
         (s\<lparr>payload := t, versionId := Suc (versionId s)\<rparr>) (secrets w)"
    and "files (snd (awsCommand rt cfg ''push'' opts w)) = files w"
    and "confirms (snd (awsCommand rt cfg ''push'' opts w)) =
           (if opt_override opts then confirms w else tl (confirms w))"
  using assms
  by (auto simp: awsCommand_def aws_push_def store_defs io_defs name_defs)

lemma pull_declined:
  fixes rt :: "'n platform"
  assumes "package_of cfg opts = Some pkg"
    and "files w = Some fs" "map_of fs (environment_of cfg opts @ ''.json'') = Some t"
    and "credentials w"
    and "map_of (secrets w) (secret_name pkg (environment_of cfg opts)) = Some s"
    and "lifecycle_state s = ACTIVE" "JSON_parse rt (payload s) = Some j"
    and "\<not> opt_override opts" "confirms w = False # cs"
  shows "awsCommand rt cfg ''pull'' opts w =
     (Inr (),
      w\<lparr>sent := sent w @ [GetSecretValue (secret_name pkg (environment_of cfg opts))],
        confirms := cs,
        console := console w @ [Out ''Operation cancelled'']\<rparr>)"
  using assms
  by (simp add: awsCommand_def aws_pull_def store_defs io_defs name_defs)

lemma create_existing:
  fixes rt :: "'n platform"
  assumes "name \<noteq> []" "files w = Some fs" "map_of fs (name @ ''.json'') = Some t"
  shows "envCommand rt cfg ''create'' (Some name) opts w =
     (Inr (), w\<lparr>console := console w @ [Err (''Environment '' @ quoted name @ '' already exists'')]\<rparr>)"
  using assms
  by (simp add: envCommand_def env_create_def ask_name_def store_defs io_defs)

lemma replace_AZ_concat:
  "replace_AZ key = concat (map (\<lambda>c. if is_AZ c then [CHR ''_'', c] else [c]) key)"
  by (induction key) auto

lemma join_newlines: "join ls newline = joined_by_newlines ls"
  by (induction ls newline rule: join.induct) (auto simp: joined_by_newlines_def)

lemma envValue_literal: "envValue rt v = literal_or_json rt v"
  by (cases v) (auto simp: literal_or_json_def)

lemma env_format:
  "opt_format opts = Some ''env'' \<Longrightarrow>
   format_output rt opts doc = Inr (joined_by_newlines (key_value_lines rt doc))"
  by (simp add: format_output_def toEnvFormat_def key_value_lines_def join_newlines
      envKey_def upper_snake_case_def replace_AZ_concat envValue_literal split_def)


lemma listed_line_frame:
  "secrets w' = secrets w \<Longrightarrow> credentials w' = credentials w \<Longrightarrow>
   listed_line rt cfg opts w' = listed_line rt cfg opts w"
  by (simp add: fun_eq_iff listed_line_def readable_def split: option.splits)

lemma seq_assoc: "seq m (\<lambda>x. seq (f x) g) = seq (seq m f) g"
  by (auto simp: seq_def fun_eq_iff split: prod.splits sum.splits)

lemma seq_after: "m w = (Inr x, w1) \<Longrightarrow> seq m f w = f x w1"
  by (simp add: seq_def)

lemma list_status_run:
  "\<exists>rs. list_status rt cfg opts envs w =
     (Inr (), w\<lparr>sent := sent w @ rs,
                console := console w @ map (\<lambda>e. Out (listed_line rt cfg opts w e)) envs\<rparr>)"
proof (induction envs arbitrary: w)
  case Nil
  show ?case by (rule exI [of _ "[]"]) (simp add: io_defs)
next
  case (Cons e envs)
  let ?M = "case (if opt_showAws opts then or_else (packageName cfg) None else None) of
            None \<Rightarrow> ret (''   '' @ e)
          | Some pkg \<Rightarrow>
              attempt
                (seq (secretsClient rt (pkg @ ''/'' @ e)) (\<lambda>_.
                 ret (''   '' @ e @ ''   [AWS '' @ check_mark @ '']'')))
                (\<lambda>_. ret (''   '' @ e @ ''   [AWS '' @ ballot_x @ '']''))"
  obtain rs1 w1 where step:
    "seq ?M console_log w = (Inr (), w1)"
    "w1 = w\<lparr>sent := sent w @ rs1, console := console w @ [Out (listed_line rt cfg opts w e)]\<rparr>"
  proof (cases "if opt_showAws opts then or_else (packageName cfg) None else None")
    case None
    then show ?thesis
      by (intro that [of _ "[]"]) (simp_all add: io_defs listed_line_def)
  next
    case (Some pkg)
    show ?thesis
    proof (cases "credentials w")
      case False
      with Some show ?thesis
        by (intro that [of _ "[]"])
          (simp_all add: io_defs listed_line_def readable_def store_defs)
    next
      case True
      with Some show ?thesis
        by (intro that [of _ "[GetSecretValue (pkg @ ''/'' @ e)]"])
          (auto simp: io_defs listed_line_def readable_def store_defs split: option.splits)
    qed
  qed
  have same: "listed_line rt cfg opts w1 = listed_line rt cfg opts w"
    by (rule listed_line_frame) (simp_all add: step(2))
  have "list_status rt cfg opts (e # envs) w = list_status rt cfg opts envs w1"
    unfolding list_status.simps seq_assoc
    by (rule seq_after [where m="seq ?M console_log" and f="\<lambda>_. list_status rt cfg opts envs"
          and x="()", OF step(1)])
  moreover from Cons.IH [of w1] obtain rs where
    "list_status rt cfg opts envs w1 =
       (Inr (), w1\<lparr>sent := sent w1 @ rs,
                console := console w1 @ map (\<lambda>e. Out (listed_line rt cfg opts w1 e)) envs\<rparr>)"
    by blast
  ultimately have "list_status rt cfg opts (e # envs) w =
     (Inr (), w\<lparr>sent := sent w @ (rs1 @ rs),
                console := console w @ map (\<lambda>e. Out (listed_line rt cfg opts w e)) (e # envs)\<rparr>)"
    unfolding same by (simp add: step(2))
  then show ?case by blast
qed

lemma env_list_run:
  assumes "files w = Some fs"
  shows "fst (envCommand rt cfg ''list'' name opts w) = Inr ()"
    and "console (snd (envCommand rt cfg ''list'' name opts w)) =
       console w @ Out ''Environments:'' #
         map (\<lambda>e. Out (listed_line rt cfg opts w e)) (environments (map fst fs))"
    and "files (snd (envCommand rt cfg ''list'' name opts w)) = files w"
proof -
  let ?w = "w\<lparr>console := console w @ [Out ''Environments:'']\<rparr>"
  obtain rs where r: "list_status rt cfg opts (environments (map fst fs)) ?w =
     (Inr (), ?w\<lparr>sent := sent ?w @ rs,
                console := console ?w @ map (\<lambda>e. Out (listed_line rt cfg opts ?w e))
                   (environments (map fst fs))\<rparr>)"
    using list_status_run by blast
  have same: "listed_line rt cfg opts ?w = listed_line rt cfg opts w"
    by (rule listed_line_frame) simp_all
  have run: "envCommand rt cfg ''list'' name opts w =
     (Inr (), ?w\<lparr>sent := sent ?w @ rs,
                console := console ?w @ map (\<lambda>e. Out (listed_line rt cfg opts w e))
                   (environments (map fst fs))\<rparr>)"
    using assms r unfolding same
    by (simp add: envCommand_def env_list_def readdir_def io_defs)
  show "fst (envCommand rt cfg ''list'' name opts w) = Inr ()"
    and "console (snd (envCommand rt cfg ''list'' name opts w)) =
       console w @ Out ''Environments:'' #
         map (\<lambda>e. Out (listed_line rt cfg opts w e)) (environments (map fst fs))"
    and "files (snd (envCommand rt cfg ''list'' name opts w)) = files w"
    using assms by (simp_all add: run)
qed

lemmas demo_defs = demo_def demo_config_def demo_world_def no_options_def demo_documents_def
  show_int_def dq_def newline_def


lemma merged_lookup:
  assumes "distinct (map fst (own_entries rt l))" "distinct (map fst (own_entries rt r))"
  shows "map_of (own_entries rt (merged rt prefer l r)) =
           (if prefer = ''local'' then map_of (own_entries rt r) ++ map_of (own_entries rt l)
            else map_of (own_entries rt l) ++ map_of (own_entries rt r))"
  using assms
  by (simp add: merged_def own_entries_def map_of_spread distinct_spread)

lemma merged_keys:
  "fst ` set (own_entries rt (merged rt prefer l r)) =
     fst ` set (own_entries rt l) \<union> fst ` set (own_entries rt r)"
  by (auto simp: merged_def own_entries_def keys_spread)

lemma merged_example:
  "merged rt ''local'' (JObj [(''x'', a), (''y'', b)]) (JObj [(''y'', c), (''z'', d)]) =
     JObj [(''y'', b), (''z'', d), (''x'', a)]"
  "merged rt ''aws'' (JObj [(''x'', a), (''y'', b)]) (JObj [(''y'', c), (''z'', d)]) =
     JObj [(''x'', a), (''y'', c), (''z'', d)]"
  by (simp_all add: merged_def own_entries_def spread_def)

lemma demo_facts:
  "files demo_world = Some
        [(''default.json'', pretty 0 (JObj [])),
         (''prod.json'', pretty 0 (JObj [(''x'', JNum 1), (''y'', JNum 2)])),
         (''staging.json'', pretty 0 (JObj [(''environment'', JStr ''staging'')]))]"
  "credentials demo_world"
  "secrets demo_world =
        [(''app/prod'',
          \<lparr>payload = compact (JObj [(''y'', JNum 9), (''z'', JNum 3)]),
           description = Text ''Secrets for app - prod environment'',
           versionId = 0, lifecycle_state = ACTIVE\<rparr>)]"
  "clock demo_world = 1700000000000"
  "sent demo_world = []"
  "console demo_world = []"
  "confirms demo_world = []"
  "inputs demo_world = []"
  by (simp_all add: demo_world_def)

lemma demo_builtins:
  "JSON_stringify demo = compact"
  "JSON_stringify2 demo = pretty 0"
  "Number_toString demo = show_int"
  "toUpperCase demo = map upper_char"
  "JSON_parse demo (compact (JObj [(''y'', JNum 9), (''z'', JNum 3)])) = Some (JObj [(''y'', JNum 9), (''z'', JNum 3)])"
  "JSON_parse demo (pretty 0 (JObj [(''x'', JNum 1), (''y'', JNum 2)])) = Some (JObj [(''x'', JNum 1), (''y'', JNum 2)])"
  "JSON_parse demo (compact (JObj [(''port'', JNum 8080)])) = Some (JObj [(''port'', JNum 8080)])"
  "JSON_parse demo ''123'' = Some (JNum 123)"
  "JSON_parse demo ''true'' = Some (JBool True)"
  by (simp_all add: demo_defs)

lemma replace_splits:
  "replace s pat [] = r \<Longrightarrow> r \<noteq> s \<Longrightarrow> \<exists>u v. s = u @ pat @ v \<and> r = u @ v"
proof (induction s arbitrary: r)
  case Nil
  then show ?case by (auto split: if_splits)
next
  case (Cons c cs)
  show ?case
  proof (cases "startsWith (c # cs) pat")
    case True
    then have "c # cs = [] @ pat @ drop (length pat) (c # cs)"
      unfolding startsWith_def by (metis append_Nil append_take_drop_id)
    moreover from True Cons.prems have "r = [] @ drop (length pat) (c # cs)" by simp
    ultimately show ?thesis by blast
  next
    case False
    with Cons.prems obtain r' where r': "replace cs pat [] = r'" "r = c # r'" "r' \<noteq> cs"
      by auto
    from Cons.IH [OF r'(1) r'(3)] obtain u v where "cs = u @ pat @ v" "r' = u @ v" by blast
    then have "c # cs = (c # u) @ pat @ v \<and> r = (c # u) @ v" using r'(2) by simp
    then show ?thesis by blast
  qed
qed

lemma environments_never_default: "''default'' \<notin> set (environments dirents)"
proof
  assume "''default'' \<in> set (environments dirents)"
  then obtain f where f: "endsWith f ''.json''" "f \<noteq> ''default.json''"
      "replace f ''.json'' [] = ''default''"
    unfolding environments_def by auto
  have "''default'' \<noteq> f" using f(1) unfolding endsWith_def by auto
  from replace_splits [OF f(3) this] obtain u v
    where uv: "f = u @ ''.json'' @ v" "''default'' = u @ v" by blast
  show False
  proof (cases "v = []")
    case True
    with uv have "f = ''default.json''" by simp
    with f(2) show False by simp
  next
    case False
    then have "last f = last v" using uv(1) by simp
    moreover have "last ''default'' = last v" using uv(2) False by (metis last_appendR)
    then have "last v = CHR ''t''" by simp
    moreover have "last f = CHR ''n''"
    proof -
      from f(1) have "drop (length f - length ''.json'') f = ''.json''"
        unfolding endsWith_def by blast
      then have "f = take (length f - length ''.json'') f @ ''.json''"
        by (metis append_take_drop_id)
      then have "last f = last ''.json''" by (metis last_appendR list.distinct(1))
      then show ?thesis by simp
    qed
    ultimately have "CHR ''n'' = CHR ''t''" by metis
    then show False by simp
  qed
qed

















section \<open>Properties\<close>

subsection \<open>C1: sync writes the union, the preferred side winning, to both sides\<close>

text \<open>
  C1. Let the package name be given, the configuration directory exist, the credentials
  be valid, the secret of the environment be absent or active, and the two documents have
  no key twice, as every object has. Then \<open>sync\<close> returns,
  having read the local document and the remote document, each the empty mapping when
  absent. The merged document is the key-by-key union of the two in which the preferred
  side wins on every key of both (\<open>prefer = local\<close>, the default, gives the remote
  entries overridden by the local ones; any other preference gives the local entries
  overridden by the remote ones). Its text is written to the local file and is the
  payload of the secret, which is updated when it exists and created, after the update
  is refused as not found, when it does not. In particular \<open>{x: a, y: b}\<close> and
  \<open>{y: c, z: d}\<close> merge to \<open>{y: b, z: d, x: a}\<close> when local is preferred and to
  \<open>{x: a, y: c, z: d}\<close> otherwise.
\<close>

theorem sync_writes_preferred_union_to_both_sides:
  fixes rt :: "'n platform" and cfg opts w pkg fs
  defines "environment \<equiv> environment_of cfg opts"
  defines "name \<equiv> secret_name pkg (environment_of cfg opts)"
  defines "l \<equiv> local_document rt w (environment_of cfg opts)"
  defines "r \<equiv> remote_document rt w (secret_name pkg (environment_of cfg opts))"
  defines "m \<equiv> merged rt (or_default (opt_prefer opts) ''local'')
                  (local_document rt w (environment_of cfg opts))
                  (remote_document rt w (secret_name pkg (environment_of cfg opts)))"
  assumes pkg: "package_of cfg opts = Some pkg"
    and dir: "files w = Some fs"
    and cred: "credentials w"
    and rec: "map_of (secrets w) name = None \<or> active_secret w name"
    and keys: "distinct (map fst (own_entries rt l))" "distinct (map fst (own_entries rt r))"
  shows "fst (awsCommand rt cfg ''sync'' opts w) = Inr ()
    \<and> map_of (own_entries rt m) =
        (if or_default (opt_prefer opts) ''local'' = ''local''
         then map_of (own_entries rt r) ++ map_of (own_entries rt l)
         else map_of (own_entries rt l) ++ map_of (own_entries rt r))
    \<and> files (snd (awsCommand rt cfg ''sync'' opts w)) =
        Some (assign (environment @ ''.json'') (JSON_stringify2 rt m) fs)
    \<and> secrets (snd (awsCommand rt cfg ''sync'' opts w)) =
        (case map_of (secrets w) name of
           None \<Rightarrow> assign name
             \<lparr>payload = JSON_stringify rt m, description = TextDate ''Synced - '' (clock w),
              versionId = 0, lifecycle_state = ACTIVE\<rparr> (secrets w)
         | Some s \<Rightarrow> assign name
             (s\<lparr>payload := JSON_stringify rt m, versionId := Suc (versionId s)\<rparr>) (secrets w))
    \<and> sent (snd (awsCommand rt cfg ''sync'' opts w)) =
        sent w @ [GetSecretValue name, UpdateSecret name (JSON_stringify rt m)] @
        (case map_of (secrets w) name of
           None \<Rightarrow> [CreateSecret name (JSON_stringify rt m) (TextDate ''Synced - '' (clock w))]
         | Some s \<Rightarrow> [])
    \<and> merged rt ''local'' (JObj [(''x'', a), (''y'', b)]) (JObj [(''y'', c), (''z'', d)]) =
        JObj [(''y'', b), (''z'', d), (''x'', a)]
    \<and> merged rt ''aws'' (JObj [(''x'', a), (''y'', b)]) (JObj [(''y'', c), (''z'', d)]) =
        JObj [(''x'', a), (''y'', c), (''z'', d)]"
proof -
  note run = sync_run [OF pkg dir cred rec [unfolded name_def], where rt=rt]
  show ?thesis
    unfolding environment_def name_def m_def
    using run merged_lookup [OF keys [unfolded l_def r_def]] merged_example [where rt=rt]
    unfolding l_def r_def
    by simp
qed

text \<open>C1 on the example world: local \<open>{x: 1, y: 2}\<close> and remote \<open>{y: 9, z: 3}\<close> give
  \<open>{x: 1, y: 2, z: 3}\<close> on both sides when local is preferred and \<open>{x: 1, y: 9, z: 3}\<close>
  when the remote side is.\<close>

theorem sync_writes_preferred_union_to_both_sides_witness:
  "fst (awsCommand demo demo_config ''sync'' (no_options\<lparr>opt_env := Some ''prod''\<rparr>) demo_world) = Inr ()
   \<and> files (snd (awsCommand demo demo_config ''sync'' (no_options\<lparr>opt_env := Some ''prod''\<rparr>) demo_world)) =
       Some [(''default.json'', pretty 0 (JObj [])),
             (''prod.json'', pretty 0 (JObj [(''y'', JNum 2), (''z'', JNum 3), (''x'', JNum 1)])),
             (''staging.json'', pretty 0 (JObj [(''environment'', JStr ''staging'')]))]
   \<and> map_option payload (map_of (secrets (snd (awsCommand demo demo_config ''sync''
         (no_options\<lparr>opt_env := Some ''prod''\<rparr>) demo_world))) ''app/prod'') =
       Some (compact (JObj [(''y'', JNum 2), (''z'', JNum 3), (''x'', JNum 1)]))
   \<and> map_of [(''y'', JNum 2), (''z'', JNum 3), (''x'', JNum (1::int))] =
       map_of [(''x'', JNum 1), (''y'', JNum 2), (''z'', JNum 3)]
   \<and> files (snd (awsCommand demo demo_config ''sync''
         (no_options\<lparr>opt_env := Some ''prod'', opt_prefer := Some ''aws''\<rparr>) demo_world)) =
       Some [(''default.json'', pretty 0 (JObj [])),
             (''prod.json'', pretty 0 (JObj [(''x'', JNum 1), (''y'', JNum 9), (''z'', JNum 3)])),
             (''staging.json'', pretty 0 (JObj [(''environment'', JStr ''staging'')]))]
   \<and> map_option payload (map_of (secrets (snd (awsCommand demo demo_config ''sync''
         (no_options\<lparr>opt_env := Some ''prod'', opt_prefer := Some ''aws''\<rparr>) demo_world))) ''app/prod'') =
       Some (compact (JObj [(''x'', JNum 1), (''y'', JNum 9), (''z'', JNum 3)]))"
proof -
  let ?o = "no_options\<lparr>opt_env := Some ''prod''\<rparr>"
  let ?o' = "no_options\<lparr>opt_env := Some ''prod'', opt_prefer := Some ''aws''\<rparr>"
  have e: "environment_of demo_config ?o = ''prod''" "environment_of demo_config ?o' = ''prod''"
    by (simp_all add: name_defs demo_config_def no_options_def)
  have p: "package_of demo_config ?o = Some ''app''" "package_of demo_config ?o' = Some ''app''"
    by (simp_all add: name_defs demo_config_def no_options_def)
  have pr: "or_default (opt_prefer ?o) ''local'' = ''local''" "or_default (opt_prefer ?o') ''local'' = ''aws''"
    by (simp_all add: no_options_def)
  have n: "secret_name ''app'' ''prod'' = ''app/prod''"
    by (simp add: secret_name_def)
  have d: "files demo_world = Some
        [(''default.json'', pretty 0 (JObj [])),
         (''prod.json'', pretty 0 (JObj [(''x'', JNum 1), (''y'', JNum 2)])),
         (''staging.json'', pretty 0 (JObj [(''environment'', JStr ''staging'')]))]"
    by (simp add: demo_world_def)
  have c: "credentials demo_world"
    by (simp add: demo_world_def)
  have sec: "map_of (secrets demo_world) ''app/prod'' =
      Some \<lparr>payload = compact (JObj [(''y'', JNum 9), (''z'', JNum 3)]),
           description = Text ''Secrets for app - prod environment'',
           versionId = 0, lifecycle_state = ACTIVE\<rparr>"
    by (simp add: demo_world_def)
  have a: "map_of (secrets demo_world) ''app/prod'' = None \<or> active_secret demo_world ''app/prod''"
    by (simp add: active_secret_def sec)
  have l: "local_document demo demo_world ''prod'' = JObj [(''x'', JNum 1), (''y'', JNum 2)]"
    by (simp add: local_document_def demo_defs)
  have r: "remote_document demo demo_world ''app/prod'' = JObj [(''y'', JNum 9), (''z'', JNum 3)]"
    by (simp add: remote_document_def demo_defs)
  have k: "distinct (map fst (own_entries demo (local_document demo demo_world ''prod'')))"
      "distinct (map fst (own_entries demo (remote_document demo demo_world ''app/prod'')))"
    by (simp_all add: l r own_entries_def)
  have st: "JSON_stringify demo = compact" "JSON_stringify2 demo = pretty 0"
    by (simp_all add: demo_def)
  note t = sync_writes_preferred_union_to_both_sides
    [where rt=demo and cfg=demo_config and opts="?o" and w=demo_world and pkg="''app''"
      and a="JNum 1" and b="JNum 2" and c="JNum 9" and d="JNum 3",
      unfolded e n, OF p(1) d c a k]
  note t' = sync_writes_preferred_union_to_both_sides
    [where rt=demo and cfg=demo_config and opts="?o'" and w=demo_world and pkg="''app''"
      and a="JNum 1" and b="JNum 2" and c="JNum 9" and d="JNum 3",
      unfolded e n, OF p(2) d c a k]
  have m: "merged demo ''local'' (JObj [(''x'', JNum 1), (''y'', JNum 2)])
             (JObj [(''y'', JNum 9), (''z'', JNum 3)]) = JObj [(''y'', JNum 2), (''z'', JNum 3), (''x'', JNum 1)]"
     "merged demo ''aws'' (JObj [(''x'', JNum 1), (''y'', JNum 2)])
             (JObj [(''y'', JNum 9), (''z'', JNum 3)]) = JObj [(''x'', JNum 1), (''y'', JNum 9), (''z'', JNum 3)]"
    by (simp_all add: merged_def own_entries_def spread_def)
  from t have "fst (awsCommand demo demo_config ''sync'' ?o demo_world) = Inr ()
   \<and> files (snd (awsCommand demo demo_config ''sync'' ?o demo_world)) =
       Some [(''default.json'', pretty 0 (JObj [])),
             (''prod.json'', pretty 0 (JObj [(''y'', JNum 2), (''z'', JNum 3), (''x'', JNum 1)])),
             (''staging.json'', pretty 0 (JObj [(''environment'', JStr ''staging'')]))]
   \<and> map_option payload (map_of (secrets (snd (awsCommand demo demo_config ''sync'' ?o demo_world))) ''app/prod'') =
       Some (compact (JObj [(''y'', JNum 2), (''z'', JNum 3), (''x'', JNum 1)]))"
    by (simp add: no_options_def l r m st sec map_of_assign del: pretty.simps compact.simps)
  moreover
  from t' have "files (snd (awsCommand demo demo_config ''sync'' ?o' demo_world)) =
       Some [(''default.json'', pretty 0 (JObj [])),
             (''prod.json'', pretty 0 (JObj [(''x'', JNum 1), (''y'', JNum 9), (''z'', JNum 3)])),
             (''staging.json'', pretty 0 (JObj [(''environment'', JStr ''staging'')]))]
   \<and> map_option payload (map_of (secrets (snd (awsCommand demo demo_config ''sync'' ?o' demo_world))) ''app/prod'') =
       Some (compact (JObj [(''x'', JNum 1), (''y'', JNum 9), (''z'', JNum 3)]))"
    by (simp add: no_options_def l r m st sec map_of_assign del: pretty.simps compact.simps)
  moreover
  have "map_of [(''y'', JNum 2), (''z'', JNum 3), (''x'', JNum (1::int))] =
       map_of [(''x'', JNum 1), (''y'', JNum 2), (''z'', JNum 3)]"
    by (auto simp: fun_eq_iff)
  ultimately show ?thesis by blast
qed

subsection \<open>C2: sync removes no key\<close>

text \<open>
  C2. Let the package name be given, the configuration directory exist, the credentials
  be valid and the secret of the environment be absent or active. Then \<open>sync\<close> returns,
  and every key of the local document before the sync and every key of the remote
  document before the sync is a key of the merged document, whose text is written to the
  local file and is the payload of the secret.
\<close>

theorem sync_keeps_every_key:
  fixes rt :: "'n platform" and cfg opts w pkg fs
  defines "name \<equiv> secret_name pkg (environment_of cfg opts)"
  defines "m \<equiv> merged rt (or_default (opt_prefer opts) ''local'')
                  (local_document rt w (environment_of cfg opts))
                  (remote_document rt w (secret_name pkg (environment_of cfg opts)))"
  assumes pkg: "package_of cfg opts = Some pkg"
    and dir: "files w = Some fs"
    and cred: "credentials w"
    and rec: "map_of (secrets w) name = None \<or> active_secret w name"
  shows "fst (awsCommand rt cfg ''sync'' opts w) = Inr ()
    \<and> files (snd (awsCommand rt cfg ''sync'' opts w)) =
        Some (assign (environment_of cfg opts @ ''.json'') (JSON_stringify2 rt m) fs)
    \<and> map_option payload (map_of (secrets (snd (awsCommand rt cfg ''sync'' opts w))) name) =
        Some (JSON_stringify rt m)
    \<and> fst ` set (own_entries rt (local_document rt w (environment_of cfg opts))) \<subseteq> fst ` set (own_entries rt m)
    \<and> fst ` set (own_entries rt (remote_document rt w name)) \<subseteq> fst ` set (own_entries rt m)"
proof -
  note run = sync_run [OF pkg dir cred rec [unfolded name_def], where rt=rt]
  show ?thesis
    unfolding name_def m_def
    using run
    by (auto simp: map_of_assign merged_keys split: option.splits)
qed

text \<open>C2 on the example world: \<open>x\<close> is local only, \<open>z\<close> is remote only, and both are
  in the document written to the two sides.\<close>

theorem sync_keeps_every_key_witness:
  "fst (awsCommand demo demo_config ''sync'' (no_options\<lparr>opt_env := Some ''prod''\<rparr>) demo_world) = Inr ()
   \<and> fst ` set (own_entries demo (local_document demo demo_world ''prod'')) = {''x'', ''y''}
   \<and> fst ` set (own_entries demo (remote_document demo demo_world ''app/prod'')) = {''y'', ''z''}
   \<and> map_of (the (files (snd (awsCommand demo demo_config ''sync''
         (no_options\<lparr>opt_env := Some ''prod''\<rparr>) demo_world)))) ''prod.json'' =
       Some (pretty 0 (JObj [(''y'', JNum 2), (''z'', JNum 3), (''x'', JNum 1)]))
   \<and> map_option payload (map_of (secrets (snd (awsCommand demo demo_config ''sync''
         (no_options\<lparr>opt_env := Some ''prod''\<rparr>) demo_world))) ''app/prod'') =
       Some (compact (JObj [(''y'', JNum 2), (''z'', JNum 3), (''x'', JNum 1)]))
   \<and> {''x'', ''y''} \<subseteq> fst ` set [(''y'', JNum 2), (''z'', JNum 3), (''x'', JNum (1::int))]
   \<and> {''y'', ''z''} \<subseteq> fst ` set [(''y'', JNum 2), (''z'', JNum 3), (''x'', JNum (1::int))]"
proof -
  let ?o = "no_options\<lparr>opt_env := Some ''prod''\<rparr>"
  have e: "environment_of demo_config ?o = ''prod''"
    by (simp add: name_defs demo_config_def no_options_def)
  have p: "package_of demo_config ?o = Some ''app''"
    by (simp add: name_defs demo_config_def no_options_def)
  have n: "secret_name ''app'' ''prod'' = ''app/prod''"
    by (simp add: secret_name_def)
  have d: "files demo_world = Some
        [(''default.json'', pretty 0 (JObj [])),
         (''prod.json'', pretty 0 (JObj [(''x'', JNum 1), (''y'', JNum 2)])),
         (''staging.json'', pretty 0 (JObj [(''environment'', JStr ''staging'')]))]"
    by (simp add: demo_world_def)
  have c: "credentials demo_world"
    by (simp add: demo_world_def)
  have sec: "map_of (secrets demo_world) ''app/prod'' =
      Some \<lparr>payload = compact (JObj [(''y'', JNum 9), (''z'', JNum 3)]),
           description = Text ''Secrets for app - prod environment'',
           versionId = 0, lifecycle_state = ACTIVE\<rparr>"
    by (simp add: demo_world_def)
  have a: "map_of (secrets demo_world) ''app/prod'' = None \<or> active_secret demo_world ''app/prod''"
    by (simp add: active_secret_def sec)
  have l: "local_document demo demo_world ''prod'' = JObj [(''x'', JNum 1), (''y'', JNum 2)]"
    by (simp add: local_document_def demo_defs)
  have r: "remote_document demo demo_world ''app/prod'' = JObj [(''y'', JNum 9), (''z'', JNum 3)]"
    by (simp add: remote_document_def demo_defs)
  have st: "JSON_stringify demo = compact" "JSON_stringify2 demo = pretty 0"
    by (simp_all add: demo_def)
  have m: "merged demo ''local'' (JObj [(''x'', JNum 1), (''y'', JNum 2)])
             (JObj [(''y'', JNum 9), (''z'', JNum 3)]) = JObj [(''y'', JNum 2), (''z'', JNum 3), (''x'', JNum 1)]"
    by (simp add: merged_def own_entries_def spread_def)
  note t = sync_keeps_every_key
    [where rt=demo and cfg=demo_config and opts="?o" and w=demo_world and pkg="''app''",
      unfolded e n, OF p d c a]
  from t have "fst (awsCommand demo demo_config ''sync'' ?o demo_world) = Inr ()
   \<and> map_of (the (files (snd (awsCommand demo demo_config ''sync'' ?o demo_world)))) ''prod.json'' =
       Some (pretty 0 (JObj [(''y'', JNum 2), (''z'', JNum 3), (''x'', JNum 1)]))
   \<and> map_option payload (map_of (secrets (snd (awsCommand demo demo_config ''sync'' ?o demo_world))) ''app/prod'') =
       Some (compact (JObj [(''y'', JNum 2), (''z'', JNum 3), (''x'', JNum 1)]))"
    by (simp add: no_options_def l r m st sec del: pretty.simps compact.simps)
  moreover have "fst ` set (own_entries demo (local_document demo demo_world ''prod'')) = {''x'', ''y''}"
    "fst ` set (own_entries demo (remote_document demo demo_world ''app/prod'')) = {''y'', ''z''}"
    by (simp_all add: l r own_entries_def)
  moreover have "{''x'', ''y''} \<subseteq> fst ` set [(''y'', JNum 2), (''z'', JNum 3), (''x'', JNum (1::int))]"
    "{''y'', ''z''} \<subseteq> fst ` set [(''y'', JNum 2), (''z'', JNum 3), (''x'', JNum (1::int))]"
    by simp_all
  ultimately show ?thesis by blast
qed

subsection \<open>C3: the recovery window\<close>

text \<open>
  C3, as amended. The validation of the recovery window comes after the confirmation of
  the deletion. For every call of \<open>deleteSecret\<close> with \<open>days\<close> given in which the
  deletion is confirmed, the call throws \<open>Error('Invalid recovery window')\<close>, the
  validation error of the source, exactly when \<open>days\<close> is less than 7 or greater than 30,
  and then no request has been sent and the store is unchanged. When \<open>days\<close> is in 7 to
  30, \<open>force\<close> is not set, the credentials are valid and the secret is active, the
  window is the one of the delete
  request, the record becomes \<open>PENDING_DELETION\<close> with the deadline of the current time
  plus the window, and the deadline is printed.
\<close>

theorem delete_window_validated_after_confirmation:
  fixes rt :: "'n platform"
  assumes pkg: "package_of cfg opts = Some pkg"
    and ask: "opt_confirm opts \<noteq> Some False"
    and yes: "confirms w = True # cs"
    and days: "opt_days opts = Some d"
  shows "(fst (deleteSecret rt cfg environment opts w) = Inl (Error ''Invalid recovery window'')
           \<longleftrightarrow> lt d 7 \<or> gt d 30)
    \<and> (lt d 7 \<or> gt d 30 \<longrightarrow>
         sent (snd (deleteSecret rt cfg environment opts w)) = sent w
         \<and> secrets (snd (deleteSecret rt cfg environment opts w)) = secrets w)
    \<and> (\<forall>n s. d = Num n \<and> 7 \<le> n \<and> n \<le> 30 \<and> \<not> opt_force opts \<and> credentials w
           \<and> map_of (secrets w) (secret_name pkg environment) = Some s
           \<and> lifecycle_state s = ACTIVE \<longrightarrow>
         fst (deleteSecret rt cfg environment opts w) = Inr ()
         \<and> sent (snd (deleteSecret rt cfg environment opts w)) =
             sent w @ [DeleteSecret (secret_name pkg environment) (RecoveryWindowInDays (Some (Num n)))]
         \<and> map_of (secrets (snd (deleteSecret rt cfg environment opts w))) (secret_name pkg environment) =
             Some (s\<lparr>lifecycle_state := PENDING_DELETION (clock w + nat n * ms_per_day)\<rparr>)
         \<and> OutDate ''Scheduled deletion: '' (clock w + nat n * ms_per_day)
             \<in> set (console (snd (deleteSecret rt cfg environment opts w))))"
proof (intro conjI allI impI)
  show "fst (deleteSecret rt cfg environment opts w) = Inl (Error ''Invalid recovery window'')
          \<longleftrightarrow> lt d 7 \<or> gt d 30"
  proof (cases "lt d 7 \<or> gt d 30")
    case True
    from True show ?thesis
      by (simp add: delete_invalid_window [OF pkg ask yes days True, where rt=rt and environment=environment])
  next
    case False
    from delete_valid_window_error [OF pkg ask yes days False, where rt=rt and environment=environment] False
    show ?thesis by simp
  qed
next
  assume "lt d 7 \<or> gt d 30"
  then show "sent (snd (deleteSecret rt cfg environment opts w)) = sent w"
    and "secrets (snd (deleteSecret rt cfg environment opts w)) = secrets w"
    by (simp_all add: delete_invalid_window [OF pkg ask yes days, where rt=rt and environment=environment])
next
  fix n s
  assume h: "d = Num n \<and> 7 \<le> n \<and> n \<le> 30 \<and> \<not> opt_force opts \<and> credentials w
           \<and> map_of (secrets w) (secret_name pkg environment) = Some s
           \<and> lifecycle_state s = ACTIVE"
  then have run: "deleteSecret rt cfg environment opts w =
     (Inr (),
      w\<lparr>confirms := cs,
        sent := sent w @ [DeleteSecret (secret_name pkg environment) (RecoveryWindowInDays (Some (Num n)))],
        secrets := assign (secret_name pkg environment)
           (s\<lparr>lifecycle_state := PENDING_DELETION (clock w + nat n * ms_per_day)\<rparr>) (secrets w),
        console := console w @
          [Out ''Secret deletion initiated successfully'',
           Out (''Secret Name: '' @ secret_name pkg environment),
           Out (''Secret ARN: '' @ ARN rt (secret_name pkg environment)),
           OutDate ''Scheduled deletion: '' (clock w + nat n * ms_per_day),
           Out ''Tip: Secret can be recovered before this date using AWS Console or CLI'']\<rparr>)"
    using delete_scheduled [OF pkg ask yes, where n=n and rt=rt and s=s and environment=environment] days by simp
  show "fst (deleteSecret rt cfg environment opts w) = Inr ()"
    and "sent (snd (deleteSecret rt cfg environment opts w)) =
             sent w @ [DeleteSecret (secret_name pkg environment) (RecoveryWindowInDays (Some (Num n)))]"
    and "map_of (secrets (snd (deleteSecret rt cfg environment opts w))) (secret_name pkg environment) =
             Some (s\<lparr>lifecycle_state := PENDING_DELETION (clock w + nat n * ms_per_day)\<rparr>)"
    and "OutDate ''Scheduled deletion: '' (clock w + nat n * ms_per_day)
             \<in> set (console (snd (deleteSecret rt cfg environment opts w)))"
    by (simp_all add: run map_of_assign)
qed

text \<open>The amended claim at \<open>days = 5\<close> and at \<open>days = 15\<close>, the deletion confirmed.\<close>

theorem delete_window_validated_after_confirmation_witness:
  "fst (deleteSecret demo demo_config ''prod'' (no_options\<lparr>opt_days := Some (Num 5)\<rparr>)
          (demo_world\<lparr>confirms := [True]\<rparr>)) = Inl (Error ''Invalid recovery window'')
   \<and> sent (snd (deleteSecret demo demo_config ''prod'' (no_options\<lparr>opt_days := Some (Num 5)\<rparr>)
          (demo_world\<lparr>confirms := [True]\<rparr>))) = []
   \<and> fst (deleteSecret demo demo_config ''prod'' (no_options\<lparr>opt_days := Some (Num 15)\<rparr>)
          (demo_world\<lparr>confirms := [True]\<rparr>)) = Inr ()
   \<and> sent (snd (deleteSecret demo demo_config ''prod'' (no_options\<lparr>opt_days := Some (Num 15)\<rparr>)
          (demo_world\<lparr>confirms := [True]\<rparr>))) =
         [DeleteSecret ''app/prod'' (RecoveryWindowInDays (Some (Num 15)))]
   \<and> map_option lifecycle_state
         (map_of (secrets (snd (deleteSecret demo demo_config ''prod'' (no_options\<lparr>opt_days := Some (Num 15)\<rparr>)
          (demo_world\<lparr>confirms := [True]\<rparr>)))) ''app/prod'') =
         Some (PENDING_DELETION (1700000000000 + 15 * 86400000))"
proof -
  let ?w = "demo_world\<lparr>confirms := [True]\<rparr>"
  have "fst (deleteSecret demo demo_config ''prod'' (no_options\<lparr>opt_days := Some (Num 5)\<rparr>) ?w)
       = Inl (Error ''Invalid recovery window'')
     \<and> sent (snd (deleteSecret demo demo_config ''prod'' (no_options\<lparr>opt_days := Some (Num 5)\<rparr>) ?w)) = []"
    using delete_window_validated_after_confirmation
      [where cfg=demo_config and opts="no_options\<lparr>opt_days := Some (Num 5)\<rparr>" and pkg="''app''"
         and w="?w" and cs="[]" and d="Num 5" and rt=demo and environment="''prod''"]
    by (simp add: demo_defs name_defs)
  moreover
  have "fst (deleteSecret demo demo_config ''prod'' (no_options\<lparr>opt_days := Some (Num 15)\<rparr>) ?w) = Inr ()
     \<and> sent (snd (deleteSecret demo demo_config ''prod'' (no_options\<lparr>opt_days := Some (Num 15)\<rparr>) ?w)) =
         [DeleteSecret ''app/prod'' (RecoveryWindowInDays (Some (Num 15)))]
     \<and> map_option lifecycle_state
         (map_of (secrets (snd (deleteSecret demo demo_config ''prod'' (no_options\<lparr>opt_days := Some (Num 15)\<rparr>) ?w)))
            ''app/prod'') = Some (PENDING_DELETION (1700000000000 + 15 * 86400000))"
    using delete_window_validated_after_confirmation
      [where cfg=demo_config and opts="no_options\<lparr>opt_days := Some (Num 15)\<rparr>" and pkg="''app''"
         and w="?w" and cs="[]" and d="Num 15" and rt=demo and environment="''prod''"]
    by (simp add: demo_defs name_defs ms_per_day_def)
  ultimately show ?thesis by blast
qed

text \<open>
  The claim as it was stated fails: with \<open>days = 5\<close> the call is cancelled, and does
  not throw, when the confirmation is declined or when the prompt is switched off; and
  with \<open>days = 15\<close> and \<open>force\<close> the window is not used, the record is \<open>DELETED\<close>.
\<close>

theorem delete_window_claim_counterexample:
  "lt (Num 5) 7
   \<and> deleteSecret demo demo_config ''prod'' (no_options\<lparr>opt_days := Some (Num 5)\<rparr>)
        (demo_world\<lparr>confirms := [False]\<rparr>) =
       (Inr (), demo_world\<lparr>confirms := [], console := [Out ''Operation cancelled'']\<rparr>)
   \<and> deleteSecret demo demo_config ''prod''
        (no_options\<lparr>opt_days := Some (Num 5), opt_confirm := Some False\<rparr>) demo_world =
       (Inr (), demo_world\<lparr>console := [Out ''Operation cancelled'']\<rparr>)
   \<and> map_option lifecycle_state
        (map_of (secrets (snd (deleteSecret demo demo_config ''prod''
           (no_options\<lparr>opt_days := Some (Num 15), opt_force := True\<rparr>)
           (demo_world\<lparr>confirms := [True]\<rparr>)))) ''app/prod'') = Some DELETED"
proof -
  have "deleteSecret demo demo_config ''prod'' (no_options\<lparr>opt_days := Some (Num 5)\<rparr>)
        (demo_world\<lparr>confirms := [False]\<rparr>) =
       (Inr (), demo_world\<lparr>confirms := [], console := [Out ''Operation cancelled'']\<rparr>)"
    using delete_declined [where cfg=demo_config and opts="no_options\<lparr>opt_days := Some (Num 5)\<rparr>"
        and pkg="''app''" and w="demo_world\<lparr>confirms := [False]\<rparr>" and cs="[]"
        and rt=demo and environment="''prod''"]
    by (simp add: demo_defs name_defs)
  moreover have "deleteSecret demo demo_config ''prod''
        (no_options\<lparr>opt_days := Some (Num 5), opt_confirm := Some False\<rparr>) demo_world =
       (Inr (), demo_world\<lparr>console := [Out ''Operation cancelled'']\<rparr>)"
    using delete_cancelled_without_prompt [where cfg=demo_config
        and opts="no_options\<lparr>opt_days := Some (Num 5), opt_confirm := Some False\<rparr>"
        and pkg="''app''" and w=demo_world and rt=demo and environment="''prod''"]
    by (simp add: demo_defs name_defs)
  moreover have "map_option lifecycle_state
        (map_of (secrets (snd (deleteSecret demo demo_config ''prod''
           (no_options\<lparr>opt_days := Some (Num 15), opt_force := True\<rparr>)
           (demo_world\<lparr>confirms := [True]\<rparr>)))) ''app/prod'') = Some DELETED"
    using delete_forced_with_days [where cfg=demo_config
        and opts="no_options\<lparr>opt_days := Some (Num 15), opt_force := True\<rparr>"
        and pkg="''app''" and w="demo_world\<lparr>confirms := [True]\<rparr>" and cs="[]"
        and rt=demo and environment="''prod''" and n=15
        and s="\<lparr>payload = compact (JObj [(''y'', JNum 9), (''z'', JNum 3)]),
           description = Text ''Secrets for app - prod environment'',
           versionId = 0, lifecycle_state = ACTIVE\<rparr>"]
    by (simp add: demo_defs name_defs)
  ultimately show ?thesis by simp
qed

subsection \<open>C4: push\<close>

text \<open>
  C4. Let the package name be given, the local document of the environment exist and the
  credentials be valid. Then \<open>push\<close> sends the text of the local document as the payload
  of the secret: when the secret does not exist it is created, with no question asked;
  when it is active and \<open>override\<close> is not set, the user is asked, and when the answer is
  no the command prints \<open>Operation cancelled\<close> and returns with the secrets and the
  files as they were; when the answer is yes, or \<open>override\<close> is set (and then nothing is
  asked), the secret is updated with the local text.
\<close>

theorem push_creates_or_updates_after_confirmation:
  fixes rt :: "'n platform" and cfg opts w pkg fs t
  defines "name \<equiv> secret_name pkg (environment_of cfg opts)"
  assumes pkg: "package_of cfg opts = Some pkg"
    and dir: "files w = Some fs"
    and loc: "map_of fs (environment_of cfg opts @ ''.json'') = Some t"
    and cred: "credentials w"
  shows "(map_of (secrets w) name = None \<longrightarrow>
            fst (awsCommand rt cfg ''push'' opts w) = Inr ()
            \<and> secrets (snd (awsCommand rt cfg ''push'' opts w)) =
                assign name
                  \<lparr>payload = t, description = TextDate ''Pushed from local config - '' (clock w),
                   versionId = 0, lifecycle_state = ACTIVE\<rparr> (secrets w)
            \<and> confirms (snd (awsCommand rt cfg ''push'' opts w)) = confirms w)
    \<and> (\<forall>cs. active_secret w name \<and> \<not> opt_override opts \<and> confirms w = False # cs \<longrightarrow>
            fst (awsCommand rt cfg ''push'' opts w) = Inr ()
            \<and> secrets (snd (awsCommand rt cfg ''push'' opts w)) = secrets w
            \<and> files (snd (awsCommand rt cfg ''push'' opts w)) = files w
            \<and> confirms (snd (awsCommand rt cfg ''push'' opts w)) = cs
            \<and> console (snd (awsCommand rt cfg ''push'' opts w)) = console w @ [Out ''Operation cancelled''])
    \<and> (\<forall>s. map_of (secrets w) name = Some s \<and> lifecycle_state s = ACTIVE
            \<and> (opt_override opts \<or> (\<exists>cs. confirms w = True # cs)) \<longrightarrow>
            fst (awsCommand rt cfg ''push'' opts w) = Inr ()
            \<and> secrets (snd (awsCommand rt cfg ''push'' opts w)) =
                assign name (s\<lparr>payload := t, versionId := Suc (versionId s)\<rparr>) (secrets w)
            \<and> confirms (snd (awsCommand rt cfg ''push'' opts w)) =
                (if opt_override opts then confirms w else tl (confirms w)))"
proof (intro conjI allI impI)
  assume "map_of (secrets w) name = None"
  then show "fst (awsCommand rt cfg ''push'' opts w) = Inr ()"
    and "secrets (snd (awsCommand rt cfg ''push'' opts w)) =
                assign name
                  \<lparr>payload = t, description = TextDate ''Pushed from local config - '' (clock w),
                   versionId = 0, lifecycle_state = ACTIVE\<rparr> (secrets w)"
    and "confirms (snd (awsCommand rt cfg ''push'' opts w)) = confirms w"
    unfolding name_def
    by (simp_all add: push_creates [OF pkg dir loc cred, where rt=rt])
next
  fix cs
  assume "active_secret w name \<and> \<not> opt_override opts \<and> confirms w = False # cs"
  then have h: "active_secret w (secret_name pkg (environment_of cfg opts))" "\<not> opt_override opts"
      "confirms w = False # cs"
    unfolding name_def by simp_all
  show "fst (awsCommand rt cfg ''push'' opts w) = Inr ()"
    and "secrets (snd (awsCommand rt cfg ''push'' opts w)) = secrets w"
    and "files (snd (awsCommand rt cfg ''push'' opts w)) = files w"
    and "confirms (snd (awsCommand rt cfg ''push'' opts w)) = cs"
    and "console (snd (awsCommand rt cfg ''push'' opts w)) = console w @ [Out ''Operation cancelled'']"
    by (simp_all add: push_declined [OF pkg dir loc cred h, where rt=rt])
next
  fix s
  assume "map_of (secrets w) name = Some s \<and> lifecycle_state s = ACTIVE
            \<and> (opt_override opts \<or> (\<exists>cs. confirms w = True # cs))"
  then have h: "map_of (secrets w) (secret_name pkg (environment_of cfg opts)) = Some s"
      "lifecycle_state s = ACTIVE" "opt_override opts \<or> (\<exists>cs. confirms w = True # cs)"
    unfolding name_def by simp_all
  note u = push_updates [OF pkg dir loc cred h, where rt=rt]
  show "fst (awsCommand rt cfg ''push'' opts w) = Inr ()"
    by (rule u(1))
  show "secrets (snd (awsCommand rt cfg ''push'' opts w)) =
                assign name (s\<lparr>payload := t, versionId := Suc (versionId s)\<rparr>) (secrets w)"
    unfolding name_def by (rule u(2))
  show "confirms (snd (awsCommand rt cfg ''push'' opts w)) =
                (if opt_override opts then confirms w else tl (confirms w))"
    by (rule u(4))
qed

text \<open>C4 on the example world: \<open>staging\<close> has no secret and gets one; \<open>prod\<close> has one,
  which stays when the answer is no and takes the local text when the answer is yes or
  \<open>override\<close> is set.\<close>

theorem push_creates_or_updates_after_confirmation_witness:
  "map_option payload (map_of (secrets (snd (awsCommand demo demo_config ''push''
       (no_options\<lparr>opt_env := Some ''staging''\<rparr>) demo_world))) ''app/staging'') =
     Some (pretty 0 (JObj [(''environment'', JStr ''staging'')]))
   \<and> secrets (snd (awsCommand demo demo_config ''push''
       (no_options\<lparr>opt_env := Some ''prod''\<rparr>) (demo_world\<lparr>confirms := [False]\<rparr>))) = secrets demo_world
   \<and> console (snd (awsCommand demo demo_config ''push''
       (no_options\<lparr>opt_env := Some ''prod''\<rparr>) (demo_world\<lparr>confirms := [False]\<rparr>))) = [Out ''Operation cancelled'']
   \<and> map_option payload (map_of (secrets (snd (awsCommand demo demo_config ''push''
       (no_options\<lparr>opt_env := Some ''prod''\<rparr>) (demo_world\<lparr>confirms := [True]\<rparr>)))) ''app/prod'') =
     Some (pretty 0 (JObj [(''x'', JNum 1), (''y'', JNum 2)]))
   \<and> map_option payload (map_of (secrets (snd (awsCommand demo demo_config ''push''
       (no_options\<lparr>opt_env := Some ''prod'', opt_override := True\<rparr>) demo_world))) ''app/prod'') =
     Some (pretty 0 (JObj [(''x'', JNum 1), (''y'', JNum 2)]))"
proof -
  let ?s = "no_options\<lparr>opt_env := Some ''staging''\<rparr>"
  let ?p = "no_options\<lparr>opt_env := Some ''prod''\<rparr>"
  let ?f = "no_options\<lparr>opt_env := Some ''prod'', opt_override := True\<rparr>"
  have e: "environment_of demo_config ?s = ''staging''" "environment_of demo_config ?p = ''prod''"
      "environment_of demo_config ?f = ''prod''"
    by (simp_all add: name_defs demo_config_def no_options_def)
  have p: "package_of demo_config ?s = Some ''app''" "package_of demo_config ?p = Some ''app''"
      "package_of demo_config ?f = Some ''app''"
    by (simp_all add: name_defs demo_config_def no_options_def)
  have n: "secret_name ''app'' ''prod'' = ''app/prod''" "secret_name ''app'' ''staging'' = ''app/staging''"
    by (simp_all add: secret_name_def)
  note fs = demo_facts(1)
  have "map_option payload (map_of (secrets (snd (awsCommand demo demo_config ''push'' ?s demo_world))) ''app/staging'') =
     Some (pretty 0 (JObj [(''environment'', JStr ''staging'')]))"
    using push_creates_or_updates_after_confirmation
      [where rt=demo and cfg=demo_config and opts="?s" and w=demo_world and pkg="''app''"
         and t="pretty 0 (JObj [(''environment'', JStr ''staging'')])",
       unfolded e n, OF p(1) fs _ demo_facts(2)]
    by (simp add: demo_facts map_of_assign del: pretty.simps compact.simps)
  moreover
  have "secrets (snd (awsCommand demo demo_config ''push'' ?p (demo_world\<lparr>confirms := [False]\<rparr>))) = secrets demo_world
    \<and> console (snd (awsCommand demo demo_config ''push'' ?p (demo_world\<lparr>confirms := [False]\<rparr>))) = [Out ''Operation cancelled'']"
    using push_creates_or_updates_after_confirmation
      [where rt=demo and cfg=demo_config and opts="?p" and w="demo_world\<lparr>confirms := [False]\<rparr>" and pkg="''app''"
         and t="pretty 0 (JObj [(''x'', JNum 1), (''y'', JNum 2)])"
         and fs="the (files demo_world)",
       unfolded e n, OF p(2)]
    by (simp add: demo_facts active_secret_def no_options_def del: pretty.simps compact.simps)
  moreover
  have "map_option payload (map_of (secrets (snd (awsCommand demo demo_config ''push'' ?p (demo_world\<lparr>confirms := [True]\<rparr>)))) ''app/prod'') =
     Some (pretty 0 (JObj [(''x'', JNum 1), (''y'', JNum 2)]))"
    using push_creates_or_updates_after_confirmation
      [where rt=demo and cfg=demo_config and opts="?p" and w="demo_world\<lparr>confirms := [True]\<rparr>" and pkg="''app''"
         and t="pretty 0 (JObj [(''x'', JNum 1), (''y'', JNum 2)])"
         and fs="the (files demo_world)",
       unfolded e n, OF p(2)]
    by (simp add: demo_facts map_of_assign no_options_def del: pretty.simps compact.simps)
  moreover
  have "map_option payload (map_of (secrets (snd (awsCommand demo demo_config ''push'' ?f demo_world))) ''app/prod'') =
     Some (pretty 0 (JObj [(''x'', JNum 1), (''y'', JNum 2)]))"
    using push_creates_or_updates_after_confirmation
      [where rt=demo and cfg=demo_config and opts="?f" and w="demo_world" and pkg="''app''"
         and t="pretty 0 (JObj [(''x'', JNum 1), (''y'', JNum 2)])"
         and fs="the (files demo_world)",
       unfolded e n, OF p(3)]
    by (simp add: demo_facts map_of_assign no_options_def del: pretty.simps compact.simps)
  ultimately show ?thesis by blast
qed

subsection \<open>C5: a declined confirmation\<close>

text \<open>
  C5. Let the package name be given, the credentials be valid, the local document of
  the environment exist and its secret be active, so that \<open>push\<close> meets the secret and
  \<open>pull\<close>, when the payload of the secret is JSON, meets the local document. When
  \<open>override\<close> is not set and the user answers no, each of the two commands returns with
  the files and the secrets as they were before it ran.
\<close>

theorem declined_confirmation_leaves_stores_unmodified:
  fixes rt :: "'n platform" and cfg opts w pkg fs t s cs
  assumes pkg: "package_of cfg opts = Some pkg"
    and dir: "files w = Some fs"
    and loc: "map_of fs (environment_of cfg opts @ ''.json'') = Some t"
    and cred: "credentials w"
    and rem: "map_of (secrets w) (secret_name pkg (environment_of cfg opts)) = Some s"
    and act: "lifecycle_state s = ACTIVE"
    and novr: "\<not> opt_override opts"
    and no: "confirms w = False # cs"
  shows "fst (awsCommand rt cfg ''push'' opts w) = Inr ()
    \<and> files (snd (awsCommand rt cfg ''push'' opts w)) = files w
    \<and> secrets (snd (awsCommand rt cfg ''push'' opts w)) = secrets w
    \<and> (JSON_parse rt (payload s) \<noteq> None \<longrightarrow>
         fst (awsCommand rt cfg ''pull'' opts w) = Inr ()
         \<and> files (snd (awsCommand rt cfg ''pull'' opts w)) = files w
         \<and> secrets (snd (awsCommand rt cfg ''pull'' opts w)) = secrets w
         \<and> console (snd (awsCommand rt cfg ''pull'' opts w)) = console w @ [Out ''Operation cancelled''])"
proof -
  have a: "active_secret w (secret_name pkg (environment_of cfg opts))"
    using rem act by (simp add: active_secret_def)
  have push: "fst (awsCommand rt cfg ''push'' opts w) = Inr ()
    \<and> files (snd (awsCommand rt cfg ''push'' opts w)) = files w
    \<and> secrets (snd (awsCommand rt cfg ''push'' opts w)) = secrets w"
    by (simp add: push_declined [OF pkg dir loc cred a novr no, where rt=rt])
  have pull: "fst (awsCommand rt cfg ''pull'' opts w) = Inr ()
         \<and> files (snd (awsCommand rt cfg ''pull'' opts w)) = files w
         \<and> secrets (snd (awsCommand rt cfg ''pull'' opts w)) = secrets w
         \<and> console (snd (awsCommand rt cfg ''pull'' opts w)) = console w @ [Out ''Operation cancelled'']"
    if "JSON_parse rt (payload s) = Some j" for j
    by (simp add: pull_declined [OF pkg dir loc cred rem act that novr no])
  from push pull show ?thesis by blast
qed

text \<open>C5 on the example world, for \<open>prod\<close>, which is on both sides.\<close>

theorem declined_confirmation_leaves_stores_unmodified_witness:
  "fst (awsCommand demo demo_config ''push'' (no_options\<lparr>opt_env := Some ''prod''\<rparr>)
          (demo_world\<lparr>confirms := [False]\<rparr>)) = Inr ()
   \<and> files (snd (awsCommand demo demo_config ''push'' (no_options\<lparr>opt_env := Some ''prod''\<rparr>)
          (demo_world\<lparr>confirms := [False]\<rparr>))) = files demo_world
   \<and> secrets (snd (awsCommand demo demo_config ''push'' (no_options\<lparr>opt_env := Some ''prod''\<rparr>)
          (demo_world\<lparr>confirms := [False]\<rparr>))) = secrets demo_world
   \<and> fst (awsCommand demo demo_config ''pull'' (no_options\<lparr>opt_env := Some ''prod''\<rparr>)
          (demo_world\<lparr>confirms := [False]\<rparr>)) = Inr ()
   \<and> files (snd (awsCommand demo demo_config ''pull'' (no_options\<lparr>opt_env := Some ''prod''\<rparr>)
          (demo_world\<lparr>confirms := [False]\<rparr>))) = files demo_world
   \<and> secrets (snd (awsCommand demo demo_config ''pull'' (no_options\<lparr>opt_env := Some ''prod''\<rparr>)
          (demo_world\<lparr>confirms := [False]\<rparr>))) = secrets demo_world"
proof -
  let ?p = "no_options\<lparr>opt_env := Some ''prod''\<rparr>"
  have e: "environment_of demo_config ?p = ''prod''"
    by (simp add: name_defs demo_config_def no_options_def)
  have p: "package_of demo_config ?p = Some ''app''"
    by (simp add: name_defs demo_config_def no_options_def)
  have n: "secret_name ''app'' ''prod'' = ''app/prod''"
    by (simp add: secret_name_def)
  show ?thesis
    using declined_confirmation_leaves_stores_unmodified
      [where rt=demo and cfg=demo_config and opts="?p" and w="demo_world\<lparr>confirms := [False]\<rparr>"
         and pkg="''app''" and cs="[]"
         and t="pretty 0 (JObj [(''x'', JNum 1), (''y'', JNum 2)])"
         and fs="the (files demo_world)"
         and s="\<lparr>payload = compact (JObj [(''y'', JNum 9), (''z'', JNum 3)]),
           description = Text ''Secrets for app - prod environment'',
           versionId = 0, lifecycle_state = ACTIVE\<rparr>",
       unfolded e n, OF p]
    by (simp add: demo_facts demo_builtins no_options_def del: pretty.simps compact.simps)
qed

subsection \<open>C6: the env format\<close>

text \<open>
  C6. For every document, the \<open>env\<close> format of \<open>getConfig\<close> is one \<open>KEY=value\<close> line
  for each entry, the lines joined by newlines; the key is the original key with an
  underscore put before each of its letters \<open>A\<close> to \<open>Z\<close> and then upper-cased as a whole,
  and the value is the literal of a string, a number or a boolean and the compact JSON
  text of any other value.
\<close>

theorem env_format_is_key_value_lines:
  fixes rt :: "'n platform"
  assumes "opt_format opts = Some ''env''"
  shows "format_output rt opts doc = Inr (joined_by_newlines (key_value_lines rt doc))
    \<and> length (key_value_lines rt doc) = length (own_entries rt doc)
    \<and> (\<forall>key v. envKey rt key @ ''='' @ envValue rt v =
          upper_snake_case rt key @ ''='' @ literal_or_json rt v)"
  using assms
  by (simp add: env_format key_value_lines_def envKey_def upper_snake_case_def replace_AZ_concat
      envValue_literal)

text \<open>C6 on a document with a string, an object, a number, a boolean and \<open>null\<close>.\<close>

theorem env_format_is_key_value_lines_witness:
  "format_output demo (no_options\<lparr>opt_format := Some ''env''\<rparr>)
     (JObj [(''apiKey'', JStr ''abc''), (''dbConfig'', JObj [(''port'', JNum 8080)]),
            (''maxRetries'', JNum 3), (''debug'', JBool True), (''nothing'', JNull)]) =
   Inr (''API_KEY=abc'' @ newline @ ''DB_CONFIG={'' @ dq @ ''port'' @ dq @ '':8080}'' @ newline
        @ ''MAX_RETRIES=3'' @ newline @ ''DEBUG=true'' @ newline @ ''NOTHING=null'')"
  using env_format_is_key_value_lines
    [where rt=demo and opts="no_options\<lparr>opt_format := Some ''env''\<rparr>"
       and doc="JObj [(''apiKey'', JStr ''abc''), (''dbConfig'', JObj [(''port'', JNum 8080)]),
            (''maxRetries'', JNum 3), (''debug'', JBool True), (''nothing'', JNull)]"]
  by (simp add: joined_by_newlines_def key_value_lines_def upper_snake_case_def literal_or_json_def
      own_entries_def is_AZ_def upper_char_def demo_defs)

subsection \<open>C7: the creation of an environment that exists\<close>

text \<open>
  C7, as amended. For every name, \<open>envCommand\<close> with the action \<open>create\<close>, when a local
  document of that name exists, is refused: the command prints on the error stream that
  the environment already exists and returns, without throwing; no file is changed or
  written, and nothing is sent to the secret store, whatever the options are.
\<close>

theorem create_existing_is_refused_without_mutation:
  fixes rt :: "'n platform"
  assumes "name \<noteq> []" "files w = Some fs" "map_of fs (name @ ''.json'') = Some t"
  shows "envCommand rt cfg ''create'' (Some name) opts w =
           (Inr (), w\<lparr>console := console w @ [Err (''Environment '' @ quoted name @ '' already exists'')]\<rparr>)
    \<and> files (snd (envCommand rt cfg ''create'' (Some name) opts w)) = files w
    \<and> secrets (snd (envCommand rt cfg ''create'' (Some name) opts w)) = secrets w
    \<and> sent (snd (envCommand rt cfg ''create'' (Some name) opts w)) = sent w"
proof -
  have found: "attempt (seq (access (name @ ''.json'')) (\<lambda>_. ret True)) (\<lambda>_. ret False) w = (Inr True, w)"
    using assms(2,3) by (simp add: access_def readFile_def io_defs)
  have asked: "ask_name (Some name) q w = (Inr name, w)" for q
    using assms(1) by (simp add: ask_name_def ret_def)
  have "env_create rt cfg (Some name) opts w =
      (Inr (), w\<lparr>console := console w @ [Err (''Environment '' @ quoted name @ '' already exists'')]\<rparr>)"
    using found asked
    by (simp add: env_create_def seq_def console_error_def Let_def)
  then have "envCommand rt cfg ''create'' (Some name) opts w =
      (Inr (), w\<lparr>console := console w @ [Err (''Environment '' @ quoted name @ '' already exists'')]\<rparr>)"
    by (simp add: envCommand_def attempt_def)
  then show ?thesis by simp
qed

text \<open>The amended claim on the example world, where \<open>staging\<close> exists, with a
  template given.\<close>

theorem create_existing_is_refused_without_mutation_witness:
  "envCommand demo demo_config ''create'' (Some ''staging'') (no_options\<lparr>opt_from := Some ''prod''\<rparr>) demo_world =
     (Inr (), demo_world\<lparr>console := [Err (''Environment '' @ quoted ''staging'' @ '' already exists'')]\<rparr>)
   \<and> files (snd (envCommand demo demo_config ''create'' (Some ''staging'')
        (no_options\<lparr>opt_from := Some ''prod''\<rparr>) demo_world)) = files demo_world"
  using create_existing_is_refused_without_mutation
    [where rt=demo and cfg=demo_config and name="''staging''" and w=demo_world
       and opts="no_options\<lparr>opt_from := Some ''prod''\<rparr>"
       and fs="the (files demo_world)" and t="pretty 0 (JObj [(''environment'', JStr ''staging'')])"]
  by (simp add: demo_facts del: pretty.simps)

text \<open>
  The claim as it was stated fails in its first half: the creation of \<open>staging\<close>, which
  exists, does not fail with an error. The command returns normally, as it does when an
  environment is created.
\<close>

theorem create_existing_counterexample:
  "\<not> (\<exists>e. fst (envCommand demo demo_config ''create'' (Some ''staging'') no_options demo_world) = Inl e)
   \<and> fst (envCommand demo demo_config ''create'' (Some ''staging'') no_options demo_world) = Inr ()
   \<and> map_of (the (files demo_world)) ''staging.json'' \<noteq> None"
  using create_existing
    [where rt=demo and cfg=demo_config and name="''staging''" and w=demo_world
       and opts="no_options"
       and fs="the (files demo_world)" and t="pretty 0 (JObj [(''environment'', JStr ''staging'')])"]
  by (simp add: demo_facts del: pretty.simps)

subsection \<open>C8: the list of environments\<close>

text \<open>
  C8. Whatever the entries of the configuration directory are, the environments that the
  \<open>list\<close> actions compute from them never contain \<open>default\<close>; and \<open>envCommand\<close>
  with the action \<open>list\<close> returns, having printed the heading and one line for each of
  these environments, so no line for \<open>default\<close>, however many environments there are.
\<close>

theorem list_never_shows_default:
  fixes rt :: "'n platform"
  shows "''default'' \<notin> set (environments dirents)
    \<and> (\<forall>fs. files w = Some fs \<longrightarrow>
          fst (envCommand rt cfg ''list'' name opts w) = Inr ()
          \<and> console (snd (envCommand rt cfg ''list'' name opts w)) =
              console w @ Out ''Environments:'' #
                map (\<lambda>e. Out (listed_line rt cfg opts w e)) (environments (map fst fs))
          \<and> ''default'' \<notin> set (environments (map fst fs)))"
  using env_list_run [where rt=rt and w=w and cfg=cfg and name=name and opts=opts]
  by (simp add: environments_never_default)

text \<open>C8 on the example world, where \<open>default.json\<close> is in the directory: the list
  has \<open>prod\<close> and \<open>staging\<close> only, with and without \<open>--show-aws\<close>.\<close>

theorem list_never_shows_default_witness:
  "map_of (the (files demo_world)) ''default.json'' \<noteq> None
   \<and> console (snd (envCommand demo demo_config ''list'' None no_options demo_world)) =
       [Out ''Environments:'', Out ''   prod'', Out ''   staging'']
   \<and> console (snd (envCommand demo demo_config ''list'' None (no_options\<lparr>opt_showAws := True\<rparr>) demo_world)) =
       [Out ''Environments:'', Out (''   prod   [AWS '' @ check_mark @ '']''),
        Out (''   staging   [AWS '' @ ballot_x @ '']'')]"
proof -
  have envs: "environments (map fst (the (files demo_world))) = [''prod'', ''staging'']"
    by (simp add: demo_facts environments_def endsWith_def startsWith_def del: pretty.simps)
  have "console (snd (envCommand demo demo_config ''list'' None no_options demo_world)) =
       [Out ''Environments:'', Out ''   prod'', Out ''   staging'']"
    using list_never_shows_default
      [where rt=demo and cfg=demo_config and name=None and opts=no_options and w=demo_world]
      envs
    by (simp add: demo_facts listed_line_def no_options_def del: pretty.simps)
  moreover
  have "console (snd (envCommand demo demo_config ''list'' None (no_options\<lparr>opt_showAws := True\<rparr>) demo_world)) =
       [Out ''Environments:'', Out (''   prod   [AWS '' @ check_mark @ '']''),
        Out (''   staging   [AWS '' @ ballot_x @ '']'')]"
    using list_never_shows_default
      [where rt=demo and cfg=demo_config and name=None and opts="no_options\<lparr>opt_showAws := True\<rparr>"
         and w=demo_world]
      envs
    by (simp add: demo_facts demo_builtins listed_line_def readable_def no_options_def demo_config_def
        del: pretty.simps compact.simps)
  moreover have "map_of (the (files demo_world)) ''default.json'' \<noteq> None"
    by (simp add: demo_facts del: pretty.simps)
  ultimately show ?thesis by blast
qed

subsection \<open>C9: deletion in no-prompt mode\<close>

text \<open>
  C9. When \<open>deleteSecret\<close> is called with the confirmation flag set to \<open>false\<close>, and
  the package name that names the secret is given, the operation is cancelled: the
  confirmation starts as false, the prompt that could make it true is skipped (no answer
  is taken), \<open>Operation cancelled\<close> is printed, and no request is sent to the secret
  store, whatever the other options are.
\<close>

theorem delete_without_prompt_is_cancelled:
  fixes rt :: "'n platform"
  assumes "opt_confirm opts = Some False"
    and "package_of cfg opts = Some pkg"
  shows "deleteSecret rt cfg environment opts w =
           (Inr (), w\<lparr>console := console w @ [Out ''Operation cancelled'']\<rparr>)
         \<and> sent (snd (deleteSecret rt cfg environment opts w)) = sent w
         \<and> secrets (snd (deleteSecret rt cfg environment opts w)) = secrets w
         \<and> confirms (snd (deleteSecret rt cfg environment opts w)) = confirms w"
proof -
  have skipped: "(if opt_confirm opts \<noteq> Some False then prompt_confirm q else ret False) w = (Inr False, w)"
    for q
    using assms(1) by (simp add: ret_def)
  have run: "deleteSecret rt cfg environment opts w =
      (Inr (), w\<lparr>console := console w @ [Out ''Operation cancelled'']\<rparr>)"
    using assms(2) skipped
    by (simp add: deleteSecret_def name_defs attempt_def seq_def console_log_def Let_def)
  then show ?thesis by simp
qed

text \<open>C9 on the example world, with \<open>force\<close> set and answers ready: nothing is asked
  and nothing is sent.\<close>

theorem delete_without_prompt_is_cancelled_witness:
  "deleteSecret demo demo_config ''prod''
     (no_options\<lparr>opt_confirm := Some False, opt_force := True\<rparr>) (demo_world\<lparr>confirms := [True, True]\<rparr>) =
     (Inr (), demo_world\<lparr>confirms := [True, True], console := [Out ''Operation cancelled'']\<rparr>)
   \<and> sent (snd (deleteSecret demo demo_config ''prod''
     (no_options\<lparr>opt_confirm := Some False, opt_force := True\<rparr>) (demo_world\<lparr>confirms := [True, True]\<rparr>))) = []"
proof -
  have a: "opt_confirm (no_options\<lparr>opt_confirm := Some False, opt_force := True\<rparr>) = Some False"
    by simp
  have b: "package_of demo_config (no_options\<lparr>opt_confirm := Some False, opt_force := True\<rparr>) = Some ''app''"
    by (simp add: name_defs demo_defs)
  from delete_without_prompt_is_cancelled [OF a b, where rt=demo and environment="''prod''"
      and w="demo_world\<lparr>confirms := [True, True]\<rparr>"]
  show ?thesis by (simp add: demo_defs)
qed

subsection \<open>C10: the value that set stores\<close>




end
